theory Spec2Isabelle
  imports Complex_Main "HOL-Library.Log_Nat"
begin

section \<open>JavaScript numbers\<close>

text \<open>
  Every numeric value of the program is a JavaScript number, a binary64 floating point
  value. The model has the finite values as the rationals they denote, the two infinities
  and NaN; the sign of zero is not part of the model. Every arithmetic operation rounds
  its exact result to the nearest binary64 value, ties to the even significand.
\<close>

datatype jsnum = Num rat | PosInf | NegInf | NaN

fun js_neg :: "jsnum \<Rightarrow> jsnum" where
  "js_neg (Num a) = Num (- a)"
| "js_neg PosInf = NegInf"
| "js_neg NegInf = PosInf"
| "js_neg NaN = NaN"

text \<open>
  Rounding a rational to binary64. For a positive \<open>q\<close>, \<open>ilog2 q\<close> is the exponent of
  its binade (the bit lengths of numerator and denominator give it up to one); the unit in
  the last place is \<open>2 ^ (e - 52)\<close>, with \<open>e\<close> at least -1022 (below that the values are
  subnormal), and the significand is \<open>q\<close> in units of the last place, rounded to an
  integer. A result of \<open>2 ^ 1024\<close> or more is infinite: that is an exponent of 1024 or
  more, or the exponent 1023 with a significand rounded up to \<open>2 ^ 53\<close>.
\<close>

definition pow2 :: "int \<Rightarrow> rat" where
  "pow2 e = (if 0 \<le> e then 2 ^ nat e else 1 / 2 ^ nat (- e))"

definition ilog2 :: "rat \<Rightarrow> int" where
  "ilog2 q =
     (let k = bitlen (fst (quotient_of q)) - bitlen (snd (quotient_of q))
      in if pow2 k \<le> q then k else k - 1)"

definition round_half_even :: "rat \<Rightarrow> int" where
  "round_half_even m =
     (if m - of_int \<lfloor>m\<rfloor> < 1 / 2 then \<lfloor>m\<rfloor>
      else if 1 / 2 < m - of_int \<lfloor>m\<rfloor> then \<lfloor>m\<rfloor> + 1
      else if even \<lfloor>m\<rfloor> then \<lfloor>m\<rfloor>
      else \<lfloor>m\<rfloor> + 1)"

definition binary64_pos :: "rat \<Rightarrow> jsnum" where
  "binary64_pos q =
     (let e = max (ilog2 q) (- 1022);
          m = round_half_even (q / pow2 (e - 52))
      in if 1024 \<le> e \<or> (e = 1023 \<and> m = 2 ^ 53) then PosInf
         else Num (of_int m * pow2 (e - 52)))"

definition binary64 :: "rat \<Rightarrow> jsnum" where
  "binary64 q =
     (if q = 0 then Num 0
      else if 0 < q then binary64_pos q
      else js_neg (binary64_pos (- q)))"

fun js_add :: "jsnum \<Rightarrow> jsnum \<Rightarrow> jsnum" where
  "js_add (Num a) (Num b) = binary64 (a + b)"
| "js_add NaN _ = NaN"
| "js_add _ NaN = NaN"
| "js_add PosInf NegInf = NaN"
| "js_add NegInf PosInf = NaN"
| "js_add PosInf _ = PosInf"
| "js_add _ PosInf = PosInf"
| "js_add NegInf _ = NegInf"
| "js_add _ NegInf = NegInf"

definition js_sub :: "jsnum \<Rightarrow> jsnum \<Rightarrow> jsnum" where
  "js_sub a b = js_add a (js_neg b)"

definition signed_inf :: "rat \<Rightarrow> jsnum" where
  "signed_inf s = (if s = 0 then NaN else if 0 < s then PosInf else NegInf)"

fun js_mul :: "jsnum \<Rightarrow> jsnum \<Rightarrow> jsnum" where
  "js_mul (Num a) (Num b) = binary64 (a * b)"
| "js_mul NaN _ = NaN"
| "js_mul _ NaN = NaN"
| "js_mul PosInf (Num b) = signed_inf b"
| "js_mul NegInf (Num b) = signed_inf (- b)"
| "js_mul (Num a) PosInf = signed_inf a"
| "js_mul (Num a) NegInf = signed_inf (- a)"
| "js_mul PosInf PosInf = PosInf"
| "js_mul NegInf NegInf = PosInf"
| "js_mul PosInf NegInf = NegInf"
| "js_mul NegInf PosInf = NegInf"

fun js_div :: "jsnum \<Rightarrow> jsnum \<Rightarrow> jsnum" where
  "js_div (Num a) (Num b) = (if b = 0 then signed_inf a else binary64 (a / b))"
| "js_div NaN _ = NaN"
| "js_div _ NaN = NaN"
| "js_div (Num a) _ = Num 0"
| "js_div PosInf (Num b) = (if 0 \<le> b then PosInf else NegInf)"
| "js_div NegInf (Num b) = (if 0 \<le> b then NegInf else PosInf)"
| "js_div _ _ = NaN"

definition trunc :: "rat \<Rightarrow> int" where
  "trunc q = (if 0 \<le> q then \<lfloor>q\<rfloor> else \<lceil>q\<rceil>)"

text \<open>The remainder operator \<open>%\<close>: the result takes the sign of the dividend.\<close>

fun js_rem :: "jsnum \<Rightarrow> jsnum \<Rightarrow> jsnum" where
  "js_rem (Num a) (Num b) =
     (if b = 0 then NaN else binary64 (a - b * of_int (trunc (a / b))))"
| "js_rem (Num a) PosInf = Num a"
| "js_rem (Num a) NegInf = Num a"
| "js_rem _ _ = NaN"

fun js_ge :: "jsnum \<Rightarrow> jsnum \<Rightarrow> bool" where
  "js_ge (Num a) (Num b) = (b \<le> a)"
| "js_ge NaN _ = False"
| "js_ge _ NaN = False"
| "js_ge PosInf _ = True"
| "js_ge _ NegInf = True"
| "js_ge _ _ = False"

fun js_gt :: "jsnum \<Rightarrow> jsnum \<Rightarrow> bool" where
  "js_gt (Num a) (Num b) = (b < a)"
| "js_gt NaN _ = False"
| "js_gt _ NaN = False"
| "js_gt PosInf PosInf = False"
| "js_gt NegInf NegInf = False"
| "js_gt PosInf _ = True"
| "js_gt _ NegInf = True"
| "js_gt _ _ = False"

text \<open>Truthiness of a number, and the idiom \<open>v || 0\<close>.\<close>

fun truthy :: "jsnum \<Rightarrow> bool" where
  "truthy (Num a) = (a \<noteq> 0)"
| "truthy NaN = False"
| "truthy _ = True"

definition or_zero :: "jsnum \<Rightarrow> jsnum" where
  "or_zero v = (if truthy v then v else Num 0)"

text \<open>
  Reading an array at a number: only a non-negative integer below the length names an
  element; every other number (a fraction, a negative, NaN, an infinity) gives
  \<open>undefined\<close>, here \<open>None\<close>.
\<close>

fun at_index :: "'a list \<Rightarrow> jsnum \<Rightarrow> 'a option" where
  "at_index xs (Num r) =
     (if 0 \<le> r \<and> of_int \<lfloor>r\<rfloor> = r \<and> nat \<lfloor>r\<rfloor> < length xs then Some (xs ! nat \<lfloor>r\<rfloor>) else None)"
| "at_index xs _ = None"

section \<open>Frames, clip tables and sprites\<close>

text \<open>
  A frame is the object literal \<open>{x, y, w, h, ox, oy}\<close>; the fields carry the prefix
  \<open>frame_\<close> here. The clip table is the plain object \<open>frames\<close> used as a dictionary
  from clip name to array of frames. Its own properties are an association list in
  property order: the names that are array indices first, in ascending order, then the
  other names in the order of their creation. A table has no own property "__proto__".
  \<open>this.anim\<close> is a string or \<open>undefined\<close>; used as a property key, \<open>undefined\<close> is
  the string "undefined". The image of a sprite is held by its name.
\<close>

record frame =
  frame_x :: jsnum
  frame_y :: jsnum
  frame_w :: jsnum
  frame_h :: jsnum
  frame_ox :: jsnum
  frame_oy :: jsnum

type_synonym clips = "(string \<times> frame list) list"

definition prop_key :: "string option \<Rightarrow> string" where
  "prop_key k = (case k of None \<Rightarrow> ''undefined'' | Some s \<Rightarrow> s)"

text \<open>
  A read \<open>frames[name]\<close> finds the own property of that name or, when there is none, the
  member of that name that the table inherits from \<open>Object.prototype\<close>: eleven functions
  and the accessor \<open>__proto__\<close>, whose value is \<open>Object.prototype\<close> itself. All of them
  are truthy and none has an element under any number. The program reads the \<open>length\<close> of
  what it finds as a number: the number of parameters of a function, and \<open>undefined\<close>,
  which is NaN in arithmetic, for \<open>Object.prototype\<close>.
\<close>

datatype member = Frames "frame list" | ProtoMember jsnum

definition object_prototype :: "string \<Rightarrow> jsnum option" where
  "object_prototype k =
     map_of [(''constructor'', Num 1), (''hasOwnProperty'', Num 1), (''isPrototypeOf'', Num 1),
             (''propertyIsEnumerable'', Num 1), (''toLocaleString'', Num 0),
             (''toString'', Num 0), (''valueOf'', Num 0),
             (''__defineGetter__'', Num 2), (''__defineSetter__'', Num 2),
             (''__lookupGetter__'', Num 1), (''__lookupSetter__'', Num 1),
             (''__proto__'', NaN)] k"

definition frames_get :: "clips \<Rightarrow> string option \<Rightarrow> member option" where
  "frames_get tbl k =
     (case map_of tbl (prop_key k) of
        Some fs \<Rightarrow> Some (Frames fs)
      | None \<Rightarrow> map_option ProtoMember (object_prototype (prop_key k)))"

fun member_length :: "member \<Rightarrow> jsnum" where
  "member_length (Frames fs) = Num (of_nat (length fs))"
| "member_length (ProtoMember l) = l"

fun member_at :: "member \<Rightarrow> jsnum \<Rightarrow> frame option" where
  "member_at (Frames fs) i = at_index fs i"
| "member_at (ProtoMember l) i = None"

text \<open>\<open>Object.keys(frames)[0]\<close>: the first property name, \<open>undefined\<close> on an empty object.\<close>

definition first_key :: "clips \<Rightarrow> string option" where
  "first_key tbl = (case tbl of [] \<Rightarrow> None | (k, _) # _ \<Rightarrow> Some k)"

record sprite =
  image_obj :: string
  frames :: clips
  anchorX :: jsnum
  anchorY :: jsnum
  scale :: jsnum
  opacity :: jsnum
  fps :: jsnum
  anim :: "string option"
  frameIndex :: jsnum
  frameTimer :: jsnum

text \<open>The constructor of class \<open>Sprite\<close> in late-registration/funkin.js.\<close>

definition Sprite :: "string \<Rightarrow> clips \<Rightarrow> jsnum \<Rightarrow> jsnum \<Rightarrow> jsnum \<Rightarrow> sprite" where
  "Sprite img frames0 x y scale0 =
     \<lparr>image_obj = img, frames = frames0, anchorX = x, anchorY = y, scale = scale0,
      opacity = Num 1, fps = Num 12,
      anim = (if frames_get frames0 (Some ''idle'') \<noteq> None then Some ''idle''
              else first_key frames0),
      frameIndex = Num 0, frameTimer = Num 0\<rparr>"

definition setAnim :: "string \<Rightarrow> sprite \<Rightarrow> sprite" where
  "setAnim name s =
     (if frames_get (frames s) (Some name) \<noteq> None \<and> anim s \<noteq> Some name
      then s\<lparr>anim := Some name, frameIndex := Num 0, frameTimer := Num 0\<rparr>
      else s)"

definition update :: "jsnum \<Rightarrow> sprite \<Rightarrow> sprite" where
  "update dt s =
     (case frames_get (frames s) (anim s) of
        None \<Rightarrow> s
      | Some animFrames \<Rightarrow>
          (let s1 = s\<lparr>frameTimer := js_add (frameTimer s) dt\<rparr>
           in if js_ge (frameTimer s1) (js_div (Num 1) (fps s1))
              then s1\<lparr>frameTimer := Num 0,
                      frameIndex := js_rem (js_add (frameIndex s1) (Num 1))
                                           (member_length animFrames)\<rparr>
              else s1))"

text \<open>
  The viewport transform is the pair of globals \<open>scaleX\<close>, \<open>scaleY\<close>, written by
  \<open>resizeCanvas\<close> and read by every draw.
\<close>

record viewport =
  scaleX :: jsnum
  scaleY :: jsnum

definition resizeCanvas :: "jsnum \<Rightarrow> jsnum \<Rightarrow> viewport" where
  "resizeCanvas innerWidth innerHeight =
     \<lparr>scaleX = js_div innerWidth (Num 1280), scaleY = js_div innerHeight (Num 720)\<rparr>"

text \<open>The calls a draw makes on the 2D context, in order.\<close>

datatype ctx_call =
    Save
  | GlobalAlpha jsnum
  | DrawImage string jsnum jsnum jsnum jsnum jsnum jsnum jsnum jsnum
  | Restore
  | ClearRect jsnum jsnum jsnum jsnum

definition current_frame :: "sprite \<Rightarrow> frame option" where
  "current_frame s =
     (case frames_get (frames s) (anim s) of
        None \<Rightarrow> None
      | Some animFrames \<Rightarrow> member_at animFrames (frameIndex s))"

definition draw :: "viewport \<Rightarrow> sprite \<Rightarrow> ctx_call list" where
  "draw v s =
     (case current_frame s of
        None \<Rightarrow> []
      | Some f \<Rightarrow>
          (let drawX = js_add (js_mul (anchorX s) (scaleX v))
                              (js_mul (js_mul (frame_ox f) (scale s)) (scaleX v));
               drawY = js_add (js_mul (anchorY s) (scaleY v))
                              (js_mul (js_mul (frame_oy f) (scale s)) (scaleY v))
           in [Save, GlobalAlpha (opacity s),
               DrawImage (image_obj s) (frame_x f) (frame_y f) (frame_w f) (frame_h f)
                 drawX drawY
                 (js_mul (js_mul (frame_w f) (scale s)) (scaleX v))
                 (js_mul (js_mul (frame_h f) (scale s)) (scaleY v)),
               Restore]))"

section \<open>Strings\<close>

text \<open>
  A string is the list of its code units; the model has the code units below 256.
  \<open>\d\<close> and \<open>[0-9]\<close> match the ten ASCII digits, \<open>.\<close> matches everything but a line
  terminator, and \<open>trim\<close> removes white space and line terminators at both ends.
\<close>

definition is_digit :: "char \<Rightarrow> bool" where
  "is_digit c = (c \<in> set ''0123456789'')"

definition digit_value :: "char \<Rightarrow> nat" where
  "digit_value c = of_char c - 48"

text \<open>
  The mathematical value of a run of decimal digits, and \<open>Number(ds)\<close> on such a run:
  the binary64 value nearest to it, which is infinite for a run of some 309 digits or
  more.
\<close>

definition decimal_value :: "string \<Rightarrow> int" where
  "decimal_value ds = foldl (\<lambda>n c. 10 * n + int (digit_value c)) 0 ds"

definition Number_of_digits :: "string \<Rightarrow> jsnum" where
  "Number_of_digits ds = binary64 (of_int (decimal_value ds))"

definition line_terminator :: "char \<Rightarrow> bool" where
  "line_terminator c = (c = CHR 0x0A \<or> c = CHR 0x0D)"

definition js_space :: "char \<Rightarrow> bool" where
  "js_space c = (c \<in> set [CHR 0x09, CHR 0x0A, CHR 0x0B, CHR 0x0C, CHR 0x0D, CHR 0x20, CHR 0xA0])"

definition trim :: "string \<Rightarrow> string" where
  "trim s = rev (dropWhile js_space (rev (dropWhile js_space s)))"

text \<open>The trailing run of digits of a string, and what is left of it.\<close>

definition trailing_digits :: "string \<Rightarrow> string" where
  "trailing_digits s = rev (takeWhile is_digit (rev s))"

definition strip_trailing_digits :: "string \<Rightarrow> string" where
  "strip_trailing_digits s = rev (dropWhile is_digit (rev s))"

text \<open>
  \<open>name.match(/^(.*?)(\d+)$/)\<close>: the lazy first group leaves the longest run of digits
  to the second, and the match fails when there is no digit at the end or when the first
  group would have to cross a line terminator. The result is the pair of groups.
\<close>

definition match_name :: "string \<Rightarrow> (string \<times> string) option" where
  "match_name name0 =
     (if trailing_digits name0 \<noteq> [] \<and> \<not> list_ex line_terminator (strip_trailing_digits name0)
      then Some (strip_trailing_digits name0, trailing_digits name0)
      else None)"

text \<open>\<open>s.split(" ")\<close> and \<open>parts.join(" ")\<close>.\<close>

fun split_on :: "char \<Rightarrow> string \<Rightarrow> string list" where
  "split_on c [] = [[]]"
| "split_on c (x # xs) =
     (if x = c then [] # split_on c xs
      else (case split_on c xs of [] \<Rightarrow> [[x]] | p # ps \<Rightarrow> (x # p) # ps))"

fun join_with :: "char \<Rightarrow> string list \<Rightarrow> string" where
  "join_with c [] = []"
| "join_with c [p] = p"
| "join_with c (p # ps) = p @ c # join_with c ps"

text \<open>
  The unary plus on an attribute value. \<open>getAttribute\<close> gives \<open>null\<close> for a missing
  attribute and \<open>+null\<close> is 0. On a string it is the conversion of the language: white
  space is trimmed, the empty string is 0, a literal with the prefix \<open>0x\<close>, \<open>0o\<close> or
  \<open>0b\<close> is read in its radix without a sign, and every other string must be an optional
  sign followed by the word Infinity or by a decimal literal (digits with an optional
  fraction, or a fraction alone) with an optional exponent; the value is rounded to
  binary64. Everything else is NaN.
\<close>

definition digit_of :: "char \<Rightarrow> nat option" where
  "digit_of c =
     (if is_digit c then Some (of_char c - 48)
      else if c \<in> set ''abcdef'' then Some (of_char c - 87)
      else if c \<in> set ''ABCDEF'' then Some (of_char c - 55)
      else None)"

definition digit_below :: "nat \<Rightarrow> char \<Rightarrow> bool" where
  "digit_below r c = (case digit_of c of None \<Rightarrow> False | Some v \<Rightarrow> v < r)"

definition radix_value :: "nat \<Rightarrow> string \<Rightarrow> int option" where
  "radix_value r s =
     (if s \<noteq> [] \<and> list_all (digit_below r) s
      then Some (foldl (\<lambda>n c. int r * n + (case digit_of c of None \<Rightarrow> 0 | Some v \<Rightarrow> int v)) 0 s)
      else None)"

definition radix_of_prefix :: "string \<Rightarrow> nat option" where
  "radix_of_prefix t =
     (if take 2 t \<in> set [''0x'', ''0X''] then Some 16
      else if take 2 t \<in> set [''0o'', ''0O''] then Some 8
      else if take 2 t \<in> set [''0b'', ''0B''] then Some 2
      else None)"

definition mantissa :: "string \<Rightarrow> rat option" where
  "mantissa s =
     (let ip = takeWhile is_digit s
      in case dropWhile is_digit s of
           [] \<Rightarrow> (if ip = [] then None else Some (of_int (decimal_value ip)))
         | c # fp \<Rightarrow>
             (if c = CHR ''.'' \<and> list_all is_digit fp \<and> ip @ fp \<noteq> []
              then Some (of_int (decimal_value ip) + of_int (decimal_value fp) / 10 ^ length fp)
              else None))"

definition digits_only :: "string \<Rightarrow> int option" where
  "digits_only s = (if s \<noteq> [] \<and> list_all is_digit s then Some (decimal_value s) else None)"

definition signed_integer :: "string \<Rightarrow> int option" where
  "signed_integer s =
     (case s of
        [] \<Rightarrow> None
      | c # r \<Rightarrow>
          (if c = CHR ''-'' then map_option uminus (digits_only r)
           else if c = CHR ''+'' then digits_only r
           else digits_only s))"

definition pow10 :: "int \<Rightarrow> rat" where
  "pow10 e = (if 0 \<le> e then 10 ^ nat e else 1 / 10 ^ nat (- e))"

definition exponent_mark :: "char \<Rightarrow> bool" where
  "exponent_mark c = (c = CHR ''e'' \<or> c = CHR ''E'')"

definition unsigned_decimal :: "string \<Rightarrow> jsnum" where
  "unsigned_decimal s =
     (if s = ''Infinity'' then PosInf
      else (case mantissa (takeWhile (\<lambda>c. \<not> exponent_mark c) s) of
              None \<Rightarrow> NaN
            | Some q \<Rightarrow>
                (case dropWhile (\<lambda>c. \<not> exponent_mark c) s of
                   [] \<Rightarrow> binary64 q
                 | _ # ex \<Rightarrow>
                     (case signed_integer ex of
                        None \<Rightarrow> NaN
                      | Some e \<Rightarrow> binary64 (q * pow10 e)))))"

definition string_to_number :: "string \<Rightarrow> jsnum" where
  "string_to_number s =
     (let t = trim s
      in if t = [] then Num 0
         else (case radix_of_prefix t of
                 Some r \<Rightarrow>
                   (case radix_value r (drop 2 t) of
                      None \<Rightarrow> NaN
                    | Some n \<Rightarrow> binary64 (of_int n))
               | None \<Rightarrow>
                   (if hd t = CHR ''-'' then js_neg (unsigned_decimal (tl t))
                    else if hd t = CHR ''+'' then unsigned_decimal (tl t)
                    else unsigned_decimal t)))"

definition to_number :: "string option \<Rightarrow> jsnum" where
  "to_number v = (case v of None \<Rightarrow> Num 0 | Some s \<Rightarrow> string_to_number s)"

section \<open>The atlas descriptor and its parser\<close>

text \<open>
  The parser receives a parsed XML document. The model has the elements of the document in
  document order, each with its tag name and its attributes.
\<close>

type_synonym element = "string \<times> (string \<times> string) list"

type_synonym document = "element list"

definition getElementsByTagName :: "document \<Rightarrow> string \<Rightarrow> element list" where
  "getElementsByTagName xml tag = filter (\<lambda>e. fst e = tag) xml"

definition getAttribute :: "element \<Rightarrow> string \<Rightarrow> string option" where
  "getAttribute sub a = map_of (snd sub) a"

datatype error = TypeError

text \<open>
  A property name is an array index when it is the decimal form, without leading zeros, of
  a number below \<open>2^32 - 1\<close>. A new property takes its place in property order: an array
  index after the smaller indices, any other name at the end.
\<close>

definition array_index :: "string \<Rightarrow> int option" where
  "array_index k =
     (if k \<noteq> [] \<and> list_all is_digit k \<and> (if hd k = CHR ''0'' then k = ''0'' else True)
         \<and> decimal_value k < 4294967295
      then Some (decimal_value k)
      else None)"

definition index_below :: "int \<Rightarrow> string \<Rightarrow> bool" where
  "index_below i k = (case array_index k of None \<Rightarrow> False | Some j \<Rightarrow> j < i)"

definition add_property :: "string \<Rightarrow> 'v \<Rightarrow> (string \<times> 'v) list \<Rightarrow> (string \<times> 'v) list" where
  "add_property k v tbl =
     (case array_index k of
        None \<Rightarrow> tbl @ [(k, v)]
      | Some i \<Rightarrow>
          takeWhile (\<lambda>e. index_below i (fst e)) tbl @ (k, v) # dropWhile (\<lambda>e. index_below i (fst e)) tbl)"

text \<open>
  \<open>if (!frames[anim]) frames[anim] = []; frames[anim].push(v)\<close>: a clip of the table
  receives the value at its end. A name that the table does not have but inherits from
  \<open>Object.prototype\<close> is truthy, so no array is made for it, and the member found has no
  \<open>push\<close>: the call throws a TypeError. Any other name becomes a new clip with the value
  as its only element.
\<close>

definition push_frame :: "string \<Rightarrow> 'a \<Rightarrow> (string \<times> 'a list) list
    \<Rightarrow> error + (string \<times> 'a list) list" where
  "push_frame k v tbl =
     (case map_of tbl k of
        Some _ \<Rightarrow> Inr (map (\<lambda>(k', vs). if k' = k then (k', vs @ [v]) else (k', vs)) tbl)
      | None \<Rightarrow>
          (case object_prototype k of
             Some _ \<Rightarrow> Inl TypeError
           | None \<Rightarrow> Inr (add_property k [v] tbl)))"

text \<open>The object literal pushed for one SubTexture, without the sort index.\<close>

definition sub_frame :: "element \<Rightarrow> frame" where
  "sub_frame sub =
     \<lparr>frame_x = to_number (getAttribute sub ''x''),
      frame_y = to_number (getAttribute sub ''y''),
      frame_w = to_number (getAttribute sub ''width''),
      frame_h = to_number (getAttribute sub ''height''),
      frame_ox = js_neg (or_zero (to_number (getAttribute sub ''frameX''))),
      frame_oy = js_neg (or_zero (to_number (getAttribute sub ''frameY'')))\<rparr>"

text \<open>
  The first loop of \<open>parseSparrow\<close> in late-registration/funkin.js. A SubTexture without
  a name makes \<open>name.match\<close> a call on \<open>null\<close>, which throws a TypeError; a name that
  does not match is skipped. Each frame is kept with its index until the sort.
\<close>

fun collect_frames :: "element list \<Rightarrow> (string \<times> (jsnum \<times> frame) list) list
    \<Rightarrow> error + (string \<times> (jsnum \<times> frame) list) list" where
  "collect_frames [] tbl = Inr tbl"
| "collect_frames (sub # subs) tbl =
     (case getAttribute sub ''name'' of
        None \<Rightarrow> Inl TypeError
      | Some name0 \<Rightarrow>
          (case match_name name0 of
             None \<Rightarrow> collect_frames subs tbl
           | Some (anim0, ds) \<Rightarrow>
               (case push_frame anim0 (Number_of_digits ds, sub_frame sub) tbl of
                  Inl e \<Rightarrow> Inl e
                | Inr tbl' \<Rightarrow> collect_frames subs tbl')))"

text \<open>
  The second loop sorts each clip with the comparator \<open>a.index - b.index\<close> and drops
  the index. An index is a finite number that is not negative, or infinite; the
  difference of two infinite indices is NaN, which the sort takes as equal. So the
  comparator orders the frames by \<open>index_key\<close>, where an infinite index has the key
  \<open>2 ^ 1024\<close>, above every finite binary64 value. The sort of the language is stable;
  here it is the stable insertion sort of the library on that key.
\<close>

fun index_key :: "jsnum \<Rightarrow> rat" where
  "index_key (Num q) = q"
| "index_key _ = 2 ^ 1024"

definition parseSparrow :: "document \<Rightarrow> error + clips" where
  "parseSparrow xml =
     (case collect_frames (getElementsByTagName xml ''SubTexture'') [] of
        Inl e \<Rightarrow> Inl e
      | Inr tbl \<Rightarrow>
          Inr (map (\<lambda>(anim0, fs). (anim0, map snd (sort_key (\<lambda>f. index_key (fst f)) fs))) tbl))"

section \<open>Game objects and the frame loop\<close>

text \<open>
  A game object is the literal pushed by \<open>loadAndPushObject\<close>, with the fields
  \<open>name\<close>, \<open>layer\<close>, \<open>sprite\<close>, \<open>effect\<close> and the counter \<open>_t\<close> that the pulse
  effect adds; the fields carry the prefix \<open>obj_\<close> here. The layer is a finite number
  of the scene configuration. The array \<open>gameObjects\<close> is the store of the objects: an
  object is known by its position in the array, and a write to an object is a write at its
  position.
\<close>

datatype effect = PulseLight

record game_object =
  obj_name :: string
  obj_layer :: rat
  obj_sprite :: "sprite option"
  obj_effect :: "effect option"
  obj_t :: "jsnum option"

text \<open>
  \<open>effects.pulseLight\<close>. The sine of the host is a parameter. The counter is written
  before the sprite is read, so it is kept when the read of a missing sprite throws.
\<close>

definition pulseLight :: "(jsnum \<Rightarrow> jsnum) \<Rightarrow> game_object \<Rightarrow> jsnum \<Rightarrow> game_object \<times> error option" where
  "pulseLight sine obj dt =
     (let t0 = (case obj_t obj of None \<Rightarrow> Num 0 | Some t \<Rightarrow> or_zero t);
          t1 = js_add t0 (js_mul dt (Num 2));
          obj1 = obj\<lparr>obj_t := Some t1\<rparr>
      in case obj_sprite obj1 of
           None \<Rightarrow> (obj1, Some TypeError)
         | Some s \<Rightarrow>
             (obj1\<lparr>obj_sprite :=
                     Some (s\<lparr>opacity := js_add (binary64 (9 / 10))
                                             (js_mul (sine t1) (binary64 (1 / 10)))\<rparr>)\<rparr>,
              None))"

text \<open>\<open>obj.effect?.(obj, dt)\<close>\<close>

definition run_effect :: "(jsnum \<Rightarrow> jsnum) \<Rightarrow> game_object \<Rightarrow> jsnum \<Rightarrow> game_object \<times> error option" where
  "run_effect sine obj dt =
     (case obj_effect obj of
        None \<Rightarrow> (obj, None)
      | Some PulseLight \<Rightarrow> pulseLight sine obj dt)"

text \<open>\<open>obj.sprite?.update(dt)\<close> and \<open>obj.sprite?.draw()\<close>\<close>

definition update_object :: "jsnum \<Rightarrow> game_object \<Rightarrow> game_object" where
  "update_object dt obj = obj\<lparr>obj_sprite := map_option (update dt) (obj_sprite obj)\<rparr>"

definition draw_object :: "viewport \<Rightarrow> game_object \<Rightarrow> ctx_call list" where
  "draw_object v obj = (case obj_sprite obj of None \<Rightarrow> [] | Some s \<Rightarrow> draw v s)"

text \<open>\<open>updateControls\<close>: the first object of a name, its sprite if it has one.\<close>

fun find_index :: "('a \<Rightarrow> bool) \<Rightarrow> 'a list \<Rightarrow> nat option" where
  "find_index p [] = None"
| "find_index p (x # xs) = (if p x then Some 0 else map_option Suc (find_index p xs))"

definition set_anim_of :: "string \<Rightarrow> string \<Rightarrow> game_object list \<Rightarrow> game_object list" where
  "set_anim_of who a objs =
     (case find_index (\<lambda>obj. obj_name obj = who) objs of
        None \<Rightarrow> objs
      | Some i \<Rightarrow>
          (case obj_sprite (objs ! i) of
             None \<Rightarrow> objs
           | Some s \<Rightarrow> objs[i := (objs ! i)\<lparr>obj_sprite := Some (setAnim a s)\<rparr>]))"

definition pressed_anim :: "(string \<Rightarrow> bool) \<Rightarrow> string \<Rightarrow> string \<Rightarrow> string \<Rightarrow> string \<Rightarrow> string" where
  "pressed_anim ks up left down right =
     (if ks up then ''singUP''
      else if ks left then ''singLEFT''
      else if ks down then ''singDOWN''
      else if ks right then ''singRIGHT''
      else ''idle'')"

definition updateControls :: "(string \<Rightarrow> bool) \<Rightarrow> game_object list \<Rightarrow> game_object list" where
  "updateControls ks objs =
     set_anim_of ''player'' (pressed_anim ks ''ArrowUp'' ''ArrowLeft'' ''ArrowDown'' ''ArrowRight'')
       (set_anim_of ''opponent'' (pressed_anim ks ''w'' ''a'' ''s'' ''d'') objs)"

text \<open>
  \<open>[...gameObjects].sort((a, b) => (a.layer || 0) - (b.layer || 0))\<close>: the sort of the
  language is stable, here the stable insertion sort of the library on the key
  \<open>layer || 0\<close>. The sorted copy holds the same objects, so the model sorts the
  positions.
\<close>

definition layer_key :: "game_object \<Rightarrow> rat" where
  "layer_key obj = (if obj_layer obj \<noteq> 0 then obj_layer obj else 0)"

definition sorted_order :: "game_object list \<Rightarrow> nat list" where
  "sorted_order objs = sort_key (\<lambda>i. layer_key (objs ! i)) [0..<length objs]"

text \<open>
  The body of the \<open>for\<close> loop over the sorted objects, with the calls made on the context
  so far; the loop ends at the first exception.
\<close>

fun for_sorted :: "(jsnum \<Rightarrow> jsnum) \<Rightarrow> viewport \<Rightarrow> jsnum \<Rightarrow> nat list \<Rightarrow> game_object list
    \<Rightarrow> ctx_call list \<Rightarrow> game_object list \<times> ctx_call list \<times> error option" where
  "for_sorted sine v dt [] objs out = (objs, out, None)"
| "for_sorted sine v dt (i # rest) objs out =
     (case run_effect sine (objs ! i) dt of
        (obj1, Some e) \<Rightarrow> (objs[i := obj1], out, Some e)
      | (obj1, None) \<Rightarrow>
          (let obj2 = update_object dt obj1
           in for_sorted sine v dt rest (objs[i := obj2]) (out @ draw_object v obj2)))"

record world =
  gameObjects :: "game_object list"
  lastTime :: jsnum
  keys :: "string \<Rightarrow> bool"
  view :: viewport
  canvas_width :: jsnum
  canvas_height :: jsnum

text \<open>
  \<open>loop(time)\<close>: the new world, the calls made on the context, and the exception that
  ended the loop if there was one (the next frame is requested only without one).
\<close>

definition loop :: "(jsnum \<Rightarrow> jsnum) \<Rightarrow> jsnum \<Rightarrow> world \<Rightarrow> world \<times> ctx_call list \<times> error option" where
  "loop sine time w =
     (let dt = js_div (js_sub time (lastTime w)) (Num 1000);
          objs1 = updateControls (keys w) (gameObjects w)
      in case for_sorted sine (view w) dt (sorted_order objs1) objs1
                [ClearRect (Num 0) (Num 0) (canvas_width w) (canvas_height w)] of
           (objs2, out, err) \<Rightarrow> (w\<lparr>lastTime := time, gameObjects := objs2\<rparr>, out, err))"

section \<open>The earlier variants kept in the repository\<close>

text \<open>
  The repository holds four earlier copies of the program beside
  late-registration/funkin.js: the second program in that file (suffix \<open>_v2\<close> here) and
  the programs part_000, part_001 and part_002 (suffixes \<open>_p000\<close>, \<open>_p001\<close>,
  \<open>_p002\<close>). The functions below are the ones of these copies that differ from the
  functions above. Their sprites have the fields \<open>baseX\<close>, \<open>baseY\<close> (or \<open>x\<close>,
  \<open>y\<close>) in place of \<open>anchorX\<close>, \<open>anchorY\<close> and have no opacity; the record above is
  used for them with the position in the anchor fields.
\<close>

text \<open>
  \<open>parseSparrow\<close> of part_000: the clip name is the raw name without its trailing
  digits and, when a space splits it in more than one part, without its first part. The
  frames stay in the order of the document.
\<close>

definition clip_name_p000 :: "string \<Rightarrow> string" where
  "clip_name_p000 name0 =
     (let parts = split_on CHR '' '' (strip_trailing_digits name0)
      in trim (join_with CHR '' '' (if 1 < length parts then tl parts else parts)))"

fun collect_frames_p000 :: "element list \<Rightarrow> clips \<Rightarrow> error + clips" where
  "collect_frames_p000 [] tbl = Inr tbl"
| "collect_frames_p000 (sub # subs) tbl =
     (case getAttribute sub ''name'' of
        None \<Rightarrow> Inl TypeError
      | Some name0 \<Rightarrow>
          (case push_frame (clip_name_p000 name0) (sub_frame sub) tbl of
             Inl e \<Rightarrow> Inl e
           | Inr tbl' \<Rightarrow> collect_frames_p000 subs tbl'))"

definition parseSparrow_p000 :: "document \<Rightarrow> error + clips" where
  "parseSparrow_p000 xml = collect_frames_p000 (getElementsByTagName xml ''SubTexture'') []"

text \<open>
  \<open>parseSparrow\<close> of part_001: the clip name is the raw name without any digit,
  trimmed, and the offsets are stored as 0 whatever the descriptor says.
\<close>

definition clip_name_p001 :: "string \<Rightarrow> string" where
  "clip_name_p001 name0 = trim (filter (\<lambda>c. \<not> is_digit c) name0)"

definition sub_frame_p001 :: "element \<Rightarrow> frame" where
  "sub_frame_p001 sub =
     \<lparr>frame_x = to_number (getAttribute sub ''x''),
      frame_y = to_number (getAttribute sub ''y''),
      frame_w = to_number (getAttribute sub ''width''),
      frame_h = to_number (getAttribute sub ''height''),
      frame_ox = Num 0,
      frame_oy = Num 0\<rparr>"

fun collect_frames_p001 :: "element list \<Rightarrow> clips \<Rightarrow> error + clips" where
  "collect_frames_p001 [] tbl = Inr tbl"
| "collect_frames_p001 (sub # subs) tbl =
     (case getAttribute sub ''name'' of
        None \<Rightarrow> Inl TypeError
      | Some name0 \<Rightarrow>
          (case push_frame (clip_name_p001 name0) (sub_frame_p001 sub) tbl of
             Inl e \<Rightarrow> Inl e
           | Inr tbl' \<Rightarrow> collect_frames_p001 subs tbl'))"

definition parseSparrow_p001 :: "document \<Rightarrow> error + clips" where
  "parseSparrow_p001 xml = collect_frames_p001 (getElementsByTagName xml ''SubTexture'') []"

text \<open>
  \<open>update\<close> of part_001: an empty clip returns at once, and the frame advances only when
  the timer is strictly above the frame period.
\<close>

definition update_p001 :: "jsnum \<Rightarrow> sprite \<Rightarrow> sprite" where
  "update_p001 dt s =
     (case frames_get (frames s) (anim s) of
        None \<Rightarrow> s
      | Some animFrames \<Rightarrow>
          (if member_length animFrames = Num 0 then s
           else (let s1 = s\<lparr>frameTimer := js_add (frameTimer s) dt\<rparr>
                 in if js_gt (frameTimer s1) (js_div (Num 1) (fps s1))
                    then s1\<lparr>frameTimer := Num 0,
                            frameIndex := js_rem (js_add (frameIndex s1) (Num 1))
                                                 (member_length animFrames)\<rparr>
                    else s1)))"

text \<open>
  \<open>draw\<close> of part_000 reads \<open>this.frames[this.anim][this.frameIndex]\<close> without the
  optional chaining: with no clip under the current name the read throws a TypeError.
  The offset is added to the base position before the viewport scale and is not
  multiplied by the sprite's scale.
\<close>

definition draw_p000 :: "viewport \<Rightarrow> sprite \<Rightarrow> error + ctx_call list" where
  "draw_p000 v s =
     (case frames_get (frames s) (anim s) of
        None \<Rightarrow> Inl TypeError
      | Some animFrames \<Rightarrow>
          (case member_at animFrames (frameIndex s) of
             None \<Rightarrow> Inr []
           | Some f \<Rightarrow>
               Inr [DrawImage (image_obj s) (frame_x f) (frame_y f) (frame_w f) (frame_h f)
                      (js_mul (js_add (anchorX s) (frame_ox f)) (scaleX v))
                      (js_mul (js_add (anchorY s) (frame_oy f)) (scaleY v))
                      (js_mul (js_mul (frame_w f) (scale s)) (scaleX v))
                      (js_mul (js_mul (frame_h f) (scale s)) (scaleY v))]))"

text \<open>\<open>draw\<close> of the second program in late-registration/funkin.js.\<close>

definition draw_v2 :: "viewport \<Rightarrow> sprite \<Rightarrow> ctx_call list" where
  "draw_v2 v s =
     (case current_frame s of
        None \<Rightarrow> []
      | Some f \<Rightarrow>
          [DrawImage (image_obj s) (frame_x f) (frame_y f) (frame_w f) (frame_h f)
             (js_mul (js_add (anchorX s) (frame_ox f)) (scaleX v))
             (js_mul (js_add (anchorY s) (frame_oy f)) (scaleY v))
             (js_mul (js_mul (frame_w f) (scale s)) (scaleX v))
             (js_mul (js_mul (frame_h f) (scale s)) (scaleY v))])"

text \<open>The constructor of part_002 sets the current clip to "idle" whatever the table holds.\<close>

definition Sprite_p002 :: "string \<Rightarrow> clips \<Rightarrow> jsnum \<Rightarrow> jsnum \<Rightarrow> jsnum \<Rightarrow> sprite" where
  "Sprite_p002 img frames0 x y scale0 =
     \<lparr>image_obj = img, frames = frames0, anchorX = x, anchorY = y, scale = scale0,
      opacity = Num 1, fps = Num 12,
      anim = Some ''idle'',
      frameIndex = Num 0, frameTimer = Num 0\<rparr>"

section \<open>The frames of a clip, as the descriptor lists them\<close>

text \<open>
  What one SubTexture contributes under the parser of late-registration/funkin.js: its
  clip name, the number its name ends in as \<open>Number\<close> reads it, and its frame; nothing when it has no name or
  its name does not end in a digit. \<open>clip_entries a subs\<close> are the contributions to clip
  \<open>a\<close> in document order.
\<close>

definition entry_of :: "element \<Rightarrow> (string \<times> jsnum \<times> frame) option" where
  "entry_of sub =
     (case getAttribute sub ''name'' of
        None \<Rightarrow> None
      | Some name0 \<Rightarrow>
          (case match_name name0 of
             None \<Rightarrow> None
           | Some (anim0, ds) \<Rightarrow> Some (anim0, Number_of_digits ds, sub_frame sub)))"

definition clip_entries :: "string \<Rightarrow> element list \<Rightarrow> (jsnum \<times> frame) list" where
  "clip_entries a subs = map snd (filter (\<lambda>e. fst e = a) (List.map_filter entry_of subs))"

definition extend_clip :: "'a list option \<Rightarrow> 'a list \<Rightarrow> 'a list option" where
  "extend_clip old es =
     (case old of None \<Rightarrow> (if es = [] then None else Some es) | Some vs \<Rightarrow> Some (vs @ es))"

text \<open>
  The SubTextures on which the first loop of that parser throws: those without a name, and
  those whose name ends in digits after the name of a member of \<open>Object.prototype\<close>.
\<close>

definition throws_on :: "element \<Rightarrow> bool" where
  "throws_on sub =
     (case getAttribute sub ''name'' of
        None \<Rightarrow> True
      | Some name0 \<Rightarrow>
          (case match_name name0 of
             None \<Rightarrow> False
           | Some (anim0, ds) \<Rightarrow> object_prototype anim0 \<noteq> None))"

text \<open>One pass of the loop body over one object: its effect, then the update of its sprite.\<close>

definition tick_object :: "(jsnum \<Rightarrow> jsnum) \<Rightarrow> jsnum \<Rightarrow> game_object \<Rightarrow> game_object" where
  "tick_object sine dt obj = update_object dt (fst (run_effect sine obj dt))"

section \<open>Example inputs\<close>

definition frame_at :: "rat \<Rightarrow> frame" where
  "frame_at n = \<lparr>frame_x = Num n, frame_y = Num 0, frame_w = Num 10, frame_h = Num 20,
                 frame_ox = Num 0, frame_oy = Num 0\<rparr>"

definition demo_clips :: clips where
  "demo_clips = [(''idle'', [frame_at 0, frame_at 10, frame_at 20, frame_at 30, frame_at 40]),
                 (''singUP'', [frame_at 50, frame_at 60])]"

definition demo_sprite :: sprite where
  "demo_sprite = Sprite ''bf.png'' demo_clips (Num 100) (Num 200) (Num 2)"

text \<open>A table without an idle clip, and a table whose idle clip has no frame.\<close>

definition sing_clips :: clips where
  "sing_clips = [(''singUP'', [frame_at 50, frame_at 60]), (''singDOWN'', [frame_at 70])]"

definition empty_clip_sprite :: sprite where
  "empty_clip_sprite = Sprite ''bf.png'' [(''idle'', [])] (Num 100) (Num 200) (Num 2)"

text \<open>A frame trimmed by 10 and 20 pixels, on a sprite of scale 2, and the viewport of the design size.\<close>

definition trimmed_sprite :: sprite where
  "trimmed_sprite =
     Sprite ''bf.png''
       [(''idle'', [\<lparr>frame_x = Num 0, frame_y = Num 0, frame_w = Num 10, frame_h = Num 20,
                     frame_ox = Num 10, frame_oy = Num 20\<rparr>])]
       (Num 100) (Num 200) (Num 2)"

definition design_view :: viewport where
  "design_view = resizeCanvas (Num 1280) (Num 720)"

text \<open>Descriptors.\<close>

definition sub_texture :: "string \<Rightarrow> string \<Rightarrow> element" where
  "sub_texture name0 x0 =
     (''SubTexture'', [(''name'', name0), (''x'', x0), (''y'', ''0''), (''width'', ''10''),
                       (''height'', ''20''), (''frameX'', ''-5''), (''frameY'', ''-7'')])"

definition demo_atlas :: document where
  "demo_atlas = [(''TextureAtlas'', [(''imagePath'', ''bf.png'')]),
                 sub_texture ''idle0'' ''0'', sub_texture ''idle10'' ''100'',
                 sub_texture ''idle2'' ''20'']"

definition sloppy_atlas :: document where
  "sloppy_atlas = [(''TextureAtlas'', []),
                   (''SubTexture'', [(''name'', ''idle0''), (''width'', ''abc'')])]"

definition nameless_atlas :: document where
  "nameless_atlas = [(''TextureAtlas'', []),
                     sub_texture ''idle0'' ''0'',
                     (''SubTexture'', [(''x'', ''10''), (''y'', ''0''), (''width'', ''10''), (''height'', ''20'')])]"

definition prototype_atlas :: document where
  "prototype_atlas = [(''TextureAtlas'', []),
                      sub_texture ''idle0'' ''0'', sub_texture ''constructor0'' ''10'']"

text \<open>Three objects inserted with the layers 2, 0, 1, and a world that holds them.\<close>

definition layered_object :: "string \<Rightarrow> rat \<Rightarrow> rat \<Rightarrow> game_object" where
  "layered_object name0 l x0 =
     \<lparr>obj_name = name0, obj_layer = l,
      obj_sprite = Some (Sprite name0 [(''idle'', [frame_at x0])] (Num x0) (Num 0) (Num 1)),
      obj_effect = None, obj_t = None\<rparr>"

definition demo_world :: world where
  "demo_world =
     \<lparr>gameObjects = [layered_object ''front'' 2 1, layered_object ''back'' 0 2,
                     layered_object ''middle'' 1 3],
      lastTime = Num 0, keys = (\<lambda>k. False), view = design_view,
      canvas_width = Num 1280, canvas_height = Num 720\<rparr>"

text \<open>Four objects of which two and two share a layer.\<close>

definition tied_objects :: "game_object list" where
  "tied_objects = [layered_object ''a'' 1 1, layered_object ''b'' 0 2,
                   layered_object ''c'' 1 3, layered_object ''d'' 0 4]"

section \<open>Facts about the number model\<close>

lemma pow2_pos: "0 < pow2 e"
  by (simp add: pow2_def)

lemma round_half_even_of_int: "round_half_even (of_int j) = j"
  by (simp add: round_half_even_def)

lemma round_half_even_nonneg: "0 \<le> m \<Longrightarrow> 0 \<le> round_half_even m"
  by (auto simp: round_half_even_def)

lemma binary64_pos_nonneg:
  assumes "0 < q"
  shows "binary64_pos q = PosInf \<or> (\<exists>r. binary64_pos q = Num r \<and> 0 \<le> r)"
proof -
  let ?ulp = "pow2 (max (ilog2 q) (- 1022) - 52)"
  have "0 \<le> q / ?ulp" using assms pow2_pos [of "max (ilog2 q) (- 1022) - 52"] by simp
  then have "0 \<le> round_half_even (q / ?ulp)" by (rule round_half_even_nonneg)
  then have "0 \<le> of_int (round_half_even (q / ?ulp)) * ?ulp"
    using pow2_pos [of "max (ilog2 q) (- 1022) - 52"] by simp
  then show ?thesis by (simp add: binary64_pos_def Let_def del: of_int_mult)
qed

lemma binary64_nonneg:
  assumes "0 \<le> q"
  shows "binary64 q = PosInf \<or> (\<exists>r. binary64 q = Num r \<and> 0 \<le> r)"
proof (cases "q = 0")
  case True
  then show ?thesis by (simp add: binary64_def)
next
  case False
  with assms have "0 < q" by simp
  with binary64_pos_nonneg [OF this] show ?thesis by (simp add: binary64_def)
qed

text \<open>
  The exponent that \<open>ilog2\<close> gives is the exponent of the binade of its argument.
\<close>

lemma pow2_powi: "pow2 e = 2 powi e"
  by (simp add: pow2_def power_int_def inverse_eq_divide power_one_over)

lemma pow2_add: "pow2 (a + b) = pow2 a * pow2 b"
  by (simp add: pow2_powi power_int_add)

lemma pow2_of_nat_le:
  assumes "1 \<le> b" and "2 ^ nat (b - 1) \<le> m"
  shows "pow2 (b - 1) \<le> of_int m"
proof -
  have "(of_int (2 ^ nat (b - 1)) :: rat) \<le> of_int m" using assms(2) by (simp only: of_int_le_iff)
  then show ?thesis using assms(1) by (simp add: pow2_def)
qed

lemma pow2_of_nat_less:
  assumes "1 \<le> b" and "m < 2 ^ nat b"
  shows "of_int m < pow2 b"
proof -
  have "(of_int m :: rat) < of_int (2 ^ nat b)" using assms(2) by (simp only: of_int_less_iff)
  then show ?thesis using assms(1) by (simp add: pow2_def)
qed

lemma ilog2_bounds:
  assumes "0 < q"
  shows "pow2 (ilog2 q) \<le> q \<and> q < pow2 (ilog2 q + 1)"
proof -
  obtain n d where nd: "quotient_of q = (n, d)" by (cases "quotient_of q")
  have d: "0 < d" using nd by (rule quotient_of_denom_pos)
  have q: "q = of_int n / of_int d" using nd by (rule quotient_of_div)
  have n: "0 < n" using assms d by (simp add: q zero_less_divide_iff)
  define bn where "bn = bitlen n"
  define bd where "bd = bitlen d"
  have bn1: "1 \<le> bn" using n by (simp add: bn_def bitlen_alt_def)
  have bd1: "1 \<le> bd" using d by (simp add: bd_def bitlen_alt_def)
  from bitlen_bounds [OF n] have "2 ^ nat (bn - 1) \<le> n" and "n < 2 ^ nat bn"
    by (simp_all add: bn_def)
  then have nl: "pow2 (bn - 1) \<le> of_int n" and nu: "of_int n < pow2 bn"
    using bn1 by (simp_all add: pow2_of_nat_le pow2_of_nat_less)
  from bitlen_bounds [OF d] have "2 ^ nat (bd - 1) \<le> d" and "d < 2 ^ nat bd"
    by (simp_all add: bd_def)
  then have dl: "pow2 (bd - 1) \<le> of_int d" and du: "of_int d < pow2 bd"
    using bd1 by (simp_all add: pow2_of_nat_le pow2_of_nat_less)
  have dpos: "(0::rat) < of_int d" using d by simp
  have low: "pow2 (bn - bd - 1) \<le> q"
  proof -
    have "pow2 (bn - bd - 1) * of_int d \<le> pow2 (bn - bd - 1) * pow2 bd"
      using du pow2_pos [of "bn - bd - 1"] by simp
    also have "\<dots> = pow2 (bn - 1)"
      using pow2_add [of "bn - bd - 1" bd] by simp
    also have "\<dots> \<le> of_int n" by (rule nl)
    finally show ?thesis using dpos by (simp add: q pos_le_divide_eq)
  qed
  have up: "q < pow2 (bn - bd + 1)"
  proof -
    have "of_int n < pow2 bn" by (rule nu)
    also have "\<dots> = pow2 (bn - bd + 1) * pow2 (bd - 1)"
      using pow2_add [of "bn - bd + 1" "bd - 1"] by simp
    also have "\<dots> \<le> pow2 (bn - bd + 1) * of_int d"
      using dl pow2_pos [of "bn - bd + 1"] by simp
    finally show ?thesis using dpos by (simp add: q pos_divide_less_eq)
  qed
  have k: "ilog2 q = (if pow2 (bn - bd) \<le> q then bn - bd else bn - bd - 1)"
    by (simp add: ilog2_def Let_def nd bn_def bd_def)
  show ?thesis
  proof (cases "pow2 (bn - bd) \<le> q")
    case True
    with k up show ?thesis by simp
  next
    case False
    with k low show ?thesis by simp
  qed
qed

text \<open>The rounded value is within half a unit in the last place of the exact one.\<close>

lemma round_half_even_error: "\<bar>of_int (round_half_even m) - m\<bar> \<le> 1 / 2"
  by (auto simp: round_half_even_def abs_if) linarith+

lemma binary64_pos_error:
  assumes "0 < q" and "binary64_pos q = Num r"
  shows "\<bar>r - q\<bar> \<le> pow2 (max (ilog2 q) (- 1022) - 52) / 2"
proof -
  define u where "u = pow2 (max (ilog2 q) (- 1022) - 52)"
  have u: "0 < u" by (simp add: u_def pow2_pos)
  from assms(2) have r: "r = of_int (round_half_even (q / u)) * u"
    by (simp add: binary64_pos_def Let_def u_def split: if_splits)
  have "r - q = (of_int (round_half_even (q / u)) - q / u) * u"
    using u by (simp add: r left_diff_distrib)
  then have "\<bar>r - q\<bar> = \<bar>of_int (round_half_even (q / u)) - q / u\<bar> * u"
    using u by (simp only: abs_mult abs_of_pos)
  also have "\<dots> \<le> (1 / 2) * u"
    using round_half_even_error [of "q / u"] u by (simp only: mult_right_mono less_imp_le)
  finally show ?thesis by (simp add: u_def)
qed

text \<open>The integers below \<open>2 ^ 53\<close> are binary64 values: rounding leaves them as they are.\<close>

lemma ilog2_of_int_le:
  assumes "0 < m" and "m < 2 ^ 53"
  shows "ilog2 (of_int m) \<le> 52"
proof -
  have "bitlen m \<le> 53" using assms by (simp add: bitlen_le_iff_power)
  moreover have "bitlen 1 = 1" by (simp add: bitlen_alt_def)
  ultimately show ?thesis by (simp add: ilog2_def Let_def)
qed

lemma binary64_pos_of_int:
  assumes "0 < m" and "m < 2 ^ 53"
  shows "binary64_pos (of_int m) = Num (of_int m)"
proof -
  define e where "e = max (ilog2 (of_int m)) (- 1022)"
  have e: "e \<le> 52" using ilog2_of_int_le [OF assms] by (simp add: e_def)
  define n where "n = nat (52 - e)"
  have ulp: "pow2 (e - 52) = 1 / 2 ^ n"
    using e by (cases "e = 52") (simp_all add: pow2_def n_def)
  have "of_int m / pow2 (e - 52) = (of_int (m * 2 ^ n) :: rat)"
    by (simp add: ulp)
  then have r: "round_half_even (of_int m / pow2 (e - 52)) = m * 2 ^ n"
    by (simp only: round_half_even_of_int)
  have v: "of_int (m * 2 ^ n) * pow2 (e - 52) = (of_int m :: rat)"
    by (simp add: ulp)
  have "\<not> (1024 \<le> e \<or> (e = 1023 \<and> m * 2 ^ n = 2 ^ 53))" using e by simp
  then show ?thesis
    by (simp only: binary64_pos_def Let_def e_def [symmetric] r v if_False)
qed

lemma binary64_of_nat:
  assumes "n < 2 ^ 53"
  shows "binary64 (of_nat n) = Num (of_nat n)"
proof (cases "n = 0")
  case True
  then show ?thesis by (simp add: binary64_def)
next
  case False
  have "int n < 2 ^ 53" using assms by (metis of_nat_less_numeral_power_cancel_iff)
  with False binary64_pos_of_int [of "int n"] show ?thesis
    by (simp add: binary64_def)
qed

lemma js_rem_of_nat:
  assumes "0 < n" and "a < 2 ^ 53"
  shows "js_rem (Num (of_nat a)) (Num (of_nat n)) = Num (of_nat (a mod n))"
proof -
  have q: "trunc (of_nat a / of_nat n) = int (a div n)"
    by (simp add: trunc_def floor_divide_of_nat_eq)
  have "(of_nat a :: rat) = of_nat (n * (a div n) + a mod n)"
    by simp
  then have d: "(of_nat a :: rat) - of_nat n * of_nat (a div n) = of_nat (a mod n)"
    by (simp only: of_nat_add of_nat_mult)
  have "a mod n < 2 ^ 53" using assms(2) by (meson le_less_trans mod_less_eq_dividend)
  then have "binary64 (of_nat (a mod n)) = Num (of_nat (a mod n))" by (rule binary64_of_nat)
  with assms(1) q d show ?thesis by simp
qed

lemma next_index:
  assumes "0 < n" and "k + 1 < 2 ^ 53"
  shows "js_rem (js_add (Num (of_nat k)) (Num 1)) (Num (of_nat n)) = Num (of_nat ((k + 1) mod n))"
proof -
  have "(of_nat k + 1 :: rat) = of_nat (k + 1)" by simp
  then have "js_add (Num (of_nat k)) (Num 1) = binary64 (of_nat (k + 1))"
    by (simp only: js_add.simps)
  also have "\<dots> = Num (of_nat (k + 1))" using assms(2) by (rule binary64_of_nat)
  finally show ?thesis by (simp only: js_rem_of_nat [OF assms])
qed

section \<open>The animation state of a sprite\<close>

text \<open>
  A read of the table finds nothing exactly for a name that is neither a clip of the table
  nor a member of \<open>Object.prototype\<close>.
\<close>

lemma frames_get_None_iff:
  "frames_get tbl (Some name0) = None \<longleftrightarrow>
     name0 \<notin> fst ` set tbl \<and> object_prototype name0 = None"
proof (cases "map_of tbl name0")
  case None
  then have "name0 \<notin> fst ` set tbl" by (simp add: map_of_eq_None_iff)
  with None show ?thesis by (simp add: frames_get_def prop_key_def)
next
  case (Some fs)
  then have "(name0, fs) \<in> set tbl" by (rule map_of_SomeD)
  then have "name0 \<in> fst ` set tbl" by (rule image_eqI [rotated]) simp
  with Some show ?thesis by (simp add: frames_get_def prop_key_def)
qed




text \<open>
  C1, as the code has it. Take a sprite whose current clip has \<open>n \<ge> 1\<close> frames, with a
  frame index below \<open>n\<close>, a timer that is not negative and a frame period \<open>1/fps\<close> that
  is a positive number \<open>p\<close> (all in binary64), and a non-negative \<open>dt\<close>. Then
  \<open>update(dt)\<close> forms the binary64 sum of the timer and \<open>dt\<close>; when the sum has reached
  \<open>p\<close> it advances the frame index by exactly one, modulo \<open>n\<close>, and sets the timer to 0,
  whatever the excess; otherwise it keeps the index and leaves the sum in the timer. The
  timer ends in \<open>[0, p)\<close>. The \<open>update\<close> of part_001 does the same, except that a sum
  equal to \<open>p\<close> does not advance the frame yet, so that its timer ends in \<open>[0, p]\<close>.
\<close>

theorem update_single_step:
  assumes "frames_get (frames s) (anim s) = Some (Frames cl)" and "cl \<noteq> []"
    and "frameIndex s = Num (of_nat k)" and "k < length cl" and "length cl < 2 ^ 53"
    and "frameTimer s = Num t" and "0 \<le> t" and "0 \<le> d"
    and "js_div (Num 1) (fps s) = Num p" and "0 < p"
  shows "update (Num d) s =
      (if js_ge (js_add (Num t) (Num d)) (Num p)
       then s\<lparr>frameIndex := Num (of_nat ((k + 1) mod length cl)), frameTimer := Num 0\<rparr>
       else s\<lparr>frameTimer := js_add (Num t) (Num d)\<rparr>) \<and>
     update_p001 (Num d) s =
      (if js_gt (js_add (Num t) (Num d)) (Num p)
       then s\<lparr>frameIndex := Num (of_nat ((k + 1) mod length cl)), frameTimer := Num 0\<rparr>
       else s\<lparr>frameTimer := js_add (Num t) (Num d)\<rparr>) \<and>
     (\<exists>u. frameTimer (update (Num d) s) = Num u \<and> 0 \<le> u \<and> u < p) \<and>
     (\<exists>u. frameTimer (update_p001 (Num d) s) = Num u \<and> 0 \<le> u \<and> u \<le> p)"
proof -
  have n: "0 < length cl" using assms(2) by simp
  have "k + 1 < 2 ^ 53" using assms(4,5) by simp
  note r = next_index [OF n this]

  define T where "T = js_add (Num t) (Num d)"
  have T: "T = PosInf \<or> (\<exists>u. T = Num u \<and> 0 \<le> u)"
    using binary64_nonneg [of "t + d"] assms(7,8) by (simp add: T_def)
  have step: "update (Num d) s =
      (if js_ge T (Num p)
       then s\<lparr>frameIndex := Num (of_nat ((k + 1) mod length cl)), frameTimer := Num 0\<rparr>
       else s\<lparr>frameTimer := T\<rparr>)"
    using assms(1,3,6,9) r
    by (simp add: update_def Let_def T_def del: js_rem.simps js_add.simps js_div.simps)
  have step_p001: "update_p001 (Num d) s =
      (if js_gt T (Num p)
       then s\<lparr>frameIndex := Num (of_nat ((k + 1) mod length cl)), frameTimer := Num 0\<rparr>
       else s\<lparr>frameTimer := T\<rparr>)"
    using assms(1,2,3,6,9) r
    by (simp add: update_p001_def Let_def T_def del: js_rem.simps js_add.simps js_div.simps)
  have range: "\<exists>u. frameTimer (update (Num d) s) = Num u \<and> 0 \<le> u \<and> u < p"
    using T assms(10) by (auto simp: step)
  have range_p001: "\<exists>u. frameTimer (update_p001 (Num d) s) = Num u \<and> 0 \<le> u \<and> u \<le> p"
    using T assms(10) by (auto simp: step_p001)
  from step step_p001 range range_p001 show ?thesis
    unfolding T_def by blast
qed

text \<open>
  At 12 frames per second the period is the binary64 value next to 1/12. From frame 0
  with an empty timer, the step 0.25 advances exactly one frame, the step 0.0625 advances
  none, and a step of exactly the period advances one frame in late-registration and none
  in part_001.
\<close>

theorem update_single_step_witness:
  "update (Num (1 / 4)) demo_sprite = demo_sprite\<lparr>frameIndex := Num 1, frameTimer := Num 0\<rparr> \<and>
   update (Num (1 / 16)) demo_sprite = demo_sprite\<lparr>frameTimer := Num (1 / 16)\<rparr> \<and>
   update (Num (6004799503160661 / 72057594037927936)) demo_sprite
     = demo_sprite\<lparr>frameIndex := Num 1, frameTimer := Num 0\<rparr> \<and>
   update_p001 (Num (6004799503160661 / 72057594037927936)) demo_sprite
     = demo_sprite\<lparr>frameTimer := Num (6004799503160661 / 72057594037927936)\<rparr>"
proof -
  have c: "frames_get (frames demo_sprite) (anim demo_sprite) =
      Some (Frames [frame_at 0, frame_at 10, frame_at 20, frame_at 30, frame_at 40])"
    by code_simp
  have ne: "[frame_at 0, frame_at 10, frame_at 20, frame_at 30, frame_at 40] \<noteq> []" by simp
  have i: "frameIndex demo_sprite = Num (of_nat 0)" by code_simp
  have k: "0 < length [frame_at 0, frame_at 10, frame_at 20, frame_at 30, frame_at 40]" by simp
  have l: "length [frame_at 0, frame_at 10, frame_at 20, frame_at 30, frame_at 40] < 2 ^ 53"
    by simp
  have t: "frameTimer demo_sprite = Num 0" by code_simp
  have t0: "(0::rat) \<le> 0" by simp
  have p: "js_div (Num 1) (fps demo_sprite) = Num (6004799503160661 / 72057594037927936)"
    by code_simp
  have pp: "(0::rat) < 6004799503160661 / 72057594037927936" by simp
  have d1: "(0::rat) \<le> 1 / 4" by simp
  have d2: "(0::rat) \<le> 1 / 16" by simp
  have d3: "(0::rat) \<le> 6004799503160661 / 72057594037927936" by simp
  have s1: "js_add (Num 0) (Num (1 / 4)) = Num (1 / 4)" by code_simp
  have s2: "js_add (Num 0) (Num (1 / 16)) = Num (1 / 16)" by code_simp
  have s3: "js_add (Num 0) (Num (6004799503160661 / 72057594037927936))
      = Num (6004799503160661 / 72057594037927936)" by code_simp
  show ?thesis
    using update_single_step [OF c ne i k l t t0 d1 p pp]
      update_single_step [OF c ne i k l t t0 d2 p pp]
      update_single_step [OF c ne i k l t t0 d3 p pp]
    by (simp add: s1 s2 s3 del: js_add.simps)
qed

text \<open>
  The claim C1 as stated asks for \<open>floor((frameTimer + dt) * fps)\<close> frames: three at 12
  frames per second for the step 0.25 from frame 0 with an empty timer. The code shows
  frame 1.
\<close>

theorem update_floor_exact_counterexample:
  "frameIndex (update (Num (1 / 4)) demo_sprite) = Num 1 \<and>
   frameTimer (update (Num (1 / 4)) demo_sprite) = Num 0 \<and>
   frameIndex (update (Num (1 / 4)) demo_sprite)
     \<noteq> Num (of_int ((0 + \<lfloor>(0 + 1 / 4) * (12::rat)\<rfloor>) mod 5))"
  by code_simp




text \<open>
  The variants part_001 and part_002 compare with \<open>>\<close> where the others compare with
  \<open>>=\<close>: a timer that lands on the period advances the frame in late-registration and
  waits one more step in part_001.
\<close>

lemma update_p001_on_the_period:
  "frameIndex (update (binary64 (1 / 12)) demo_sprite) = Num 1 \<and>
   frameIndex (update_p001 (binary64 (1 / 12)) demo_sprite) = Num 0"
  by code_simp

section \<open>Missing clips and frames\<close>

text \<open>
  What late-registration/funkin.js does on a state without a current frame: \<open>update\<close>
  returns at once when nothing is found under the current name, \<open>draw\<close> makes no call
  on the context, and \<open>update\<close> keeps a frame index inside a clip that has frames.
\<close>

lemma update_absent_clip:
  "frames_get (frames s) (anim s) = None \<Longrightarrow> update dt s = s"
  by (simp add: update_def)

lemma draw_without_frame:
  "current_frame s = None \<Longrightarrow> draw v s = []"
  by (simp add: draw_def)

lemma update_index_in_range:
  assumes "frames_get (frames s) (anim s) = Some (Frames cl)" and "cl \<noteq> []"
    and "frameIndex s = Num (of_nat k)" and "k < length cl" and "length cl < 2 ^ 53"
  shows "\<exists>j<length cl. frameIndex (update dt s) = Num (of_nat j)"
proof -
  have n: "0 < length cl" using assms(2) by simp
  have "k + 1 < 2 ^ 53" using assms(4,5) by simp
  note r = next_index [OF n this]
  have "(k + 1) mod length cl < length cl" using n by simp
  then show ?thesis
    using assms(1,3,4) r
    by (auto simp: update_def Let_def simp del: js_rem.simps js_add.simps js_div.simps)
qed

text \<open>
  C6. The claim holds for the states above and fails in two places. The \<open>draw\<close> of
  part_000 has no optional chaining: a descriptor without a SubTexture parses to the empty
  table, the sprite built on it has no current clip, and its \<open>draw\<close> throws a TypeError.
  The \<open>update\<close> of late-registration/funkin.js guards the absent clip only: on a clip
  without frames it runs, and once the timer has reached the period the index becomes
  \<open>(0 + 1) % 0\<close>, which is NaN; the \<open>update\<close> of part_001 returns at once there.
\<close>

theorem draw_p000_raises_update_empty_clip_nan:
  "parseSparrow_p000 [(''TextureAtlas'', [])] = Inr [] \<and>
   anim (Sprite ''bf.png'' [] (Num 100) (Num 200) (Num 2)) = None \<and>
   draw_p000 design_view (Sprite ''bf.png'' [] (Num 100) (Num 200) (Num 2)) = Inl TypeError \<and>
   draw design_view (Sprite ''bf.png'' [] (Num 100) (Num 200) (Num 2)) = [] \<and>
   update (Num (1 / 10)) empty_clip_sprite
     = empty_clip_sprite\<lparr>frameIndex := NaN, frameTimer := Num 0\<rparr> \<and>
   update_p001 (Num (1 / 10)) empty_clip_sprite = empty_clip_sprite"
  by code_simp

section \<open>The clip a new sprite starts on\<close>

text \<open>
  The constructor of late-registration/funkin.js starts on "idle" when the table has a
  clip of that name and on the first clip of the table otherwise, with index and timer 0.
\<close>

lemma Sprite_initial_clip:
  "anim (Sprite img tbl x y sc) =
     (if ''idle'' \<in> fst ` set tbl then Some ''idle'' else first_key tbl) \<and>
   frameIndex (Sprite img tbl x y sc) = Num 0 \<and>
   frameTimer (Sprite img tbl x y sc) = Num 0"
proof -
  have "object_prototype ''idle'' = None" by (simp add: object_prototype_def)
  with frames_get_None_iff [of tbl "''idle''"] show ?thesis by (simp add: Sprite_def)
qed

text \<open>
  C10. The constructor of part_002 sets the current clip to "idle" without a look at the
  table: on a table without an idle clip the sprite starts on a clip that does not exist,
  where the claim and the constructor of late-registration/funkin.js give the first clip.
\<close>

theorem Sprite_p002_always_idle:
  "anim (Sprite_p002 ''bf.png'' sing_clips (Num 100) (Num 200) (Num 2)) = Some ''idle'' \<and>
   map_of sing_clips ''idle'' = None \<and>
   first_key sing_clips = Some ''singUP'' \<and>
   anim (Sprite ''bf.png'' sing_clips (Num 100) (Num 200) (Num 2)) = Some ''singUP''"
  by code_simp

section \<open>The draw transform\<close>

text \<open>
  The draw of late-registration/funkin.js: the position is
  \<open>anchor * viewportScale + offset * scale * viewportScale\<close> and the size is
  \<open>frameSize * scale * viewportScale\<close>, in binary64 arithmetic and in that order of the
  operations. No method writes the anchor.
\<close>

lemma draw_position:
  assumes "current_frame s = Some f"
  shows "draw v s =
     [Save, GlobalAlpha (opacity s),
      DrawImage (image_obj s) (frame_x f) (frame_y f) (frame_w f) (frame_h f)
        (js_add (js_mul (anchorX s) (scaleX v)) (js_mul (js_mul (frame_ox f) (scale s)) (scaleX v)))
        (js_add (js_mul (anchorY s) (scaleY v)) (js_mul (js_mul (frame_oy f) (scale s)) (scaleY v)))
        (js_mul (js_mul (frame_w f) (scale s)) (scaleX v))
        (js_mul (js_mul (frame_h f) (scale s)) (scaleY v)),
      Restore]"
  using assms by (simp add: draw_def Let_def)

lemma anchor_fixed:
  "anchorX (update dt s) = anchorX s \<and> anchorY (update dt s) = anchorY s \<and>
   anchorX (setAnim name0 s) = anchorX s \<and> anchorY (setAnim name0 s) = anchorY s"
  by (simp add: update_def setAnim_def Let_def split: option.splits)

text \<open>
  C3. The draw of the second program in late-registration/funkin.js computes
  \<open>(baseX + ox) * scaleX\<close>: the offset is not multiplied by the sprite's scale. On a
  sprite of scale 2 at (100, 200) with the frame offset (10, 20), in the viewport of the
  design size, it draws at (110, 220); the claim and the first program give (120, 240).
\<close>

theorem draw_v2_offset_unscaled:
  "draw_v2 design_view trimmed_sprite =
     [DrawImage ''bf.png'' (Num 0) (Num 0) (Num 10) (Num 20) (Num 110) (Num 220) (Num 20) (Num 40)] \<and>
   draw design_view trimmed_sprite =
     [Save, GlobalAlpha (Num 1),
      DrawImage ''bf.png'' (Num 0) (Num 0) (Num 10) (Num 20) (Num 120) (Num 240) (Num 20) (Num 40),
      Restore] \<and>
   Num 120 = js_add (js_mul (anchorX trimmed_sprite) (scaleX design_view))
               (js_mul (js_mul (Num 10) (scale trimmed_sprite)) (scaleX design_view))"
  by code_simp

section \<open>The parser\<close>

lemma add_property_set: "set (add_property k v tbl) = insert (k, v) (set tbl)"
proof (cases "array_index k")
  case None
  then show ?thesis by (simp add: add_property_def)
next
  case (Some i)
  let ?P = "\<lambda>e. index_below i (fst e)"
  have "set (takeWhile ?P tbl @ (k, v) # dropWhile ?P tbl)
      = insert (k, v) (set (takeWhile ?P tbl @ dropWhile ?P tbl))"
    by (simp only: set_append set_simps) blast
  with Some show ?thesis by (simp add: add_property_def)
qed

lemma add_property_distinct:
  assumes "distinct (map fst tbl)" and "k \<notin> fst ` set tbl"
  shows "distinct (map fst (add_property k v tbl))"
proof (cases "array_index k")
  case None
  with assms show ?thesis by (simp add: add_property_def)
next
  case (Some i)
  let ?P = "\<lambda>e. index_below i (fst e)"
  have "distinct (map fst (takeWhile ?P tbl @ dropWhile ?P tbl))" using assms(1) by simp
  moreover have "k \<notin> fst ` set (takeWhile ?P tbl)" "k \<notin> fst ` set (dropWhile ?P tbl)"
    using assms(2) by (auto dest: set_takeWhileD set_dropWhileD)
  ultimately have "distinct (map fst (takeWhile ?P tbl @ (k, v) # dropWhile ?P tbl))"
    by (simp only: map_append list.map distinct_append distinct.simps set_append set_simps
        set_map fst_conv) blast
  with Some show ?thesis by (simp add: add_property_def)
qed

lemma map_of_add_property:
  assumes "distinct (map fst tbl)" and "k \<notin> fst ` set tbl"
  shows "map_of (add_property k v tbl) = (map_of tbl)(k \<mapsto> v)"
proof -
  have d1: "distinct (map fst (add_property k v tbl))"
    using assms by (rule add_property_distinct)
  have d2: "distinct (map fst ((k, v) # tbl))" using assms by simp
  have "set (add_property k v tbl) = set ((k, v) # tbl)" by (simp add: add_property_set)
  with d1 d2 have "map_of (add_property k v tbl) = map_of ((k, v) # tbl)"
    by (simp only: map_of_inject_set)
  then show ?thesis by simp
qed

lemma map_of_map_append:
  "map_of (map (\<lambda>(k', vs). if k' = k then (k', vs @ [v]) else (k', vs)) tbl) a
     = (if a = k then map_option (\<lambda>vs. vs @ [v]) (map_of tbl a) else map_of tbl a)"
  by (induction tbl) auto

lemma map_fst_map_append:
  "map fst (map (\<lambda>(k', vs). if k' = k then (k', vs @ [v]) else (k', vs)) tbl) = map fst tbl"
  by (induction tbl) auto

text \<open>
  A push that does not throw: the clip is in the table or its name is not inherited.
\<close>

lemma push_frame_returns:
  assumes "distinct (map fst tbl)" and "object_prototype k = None"
  shows "\<exists>tbl'. push_frame k v tbl = Inr tbl' \<and> distinct (map fst tbl') \<and>
           fst ` set tbl' = insert k (fst ` set tbl) \<and>
           (\<forall>a. map_of tbl' a = (if a = k then extend_clip (map_of tbl k) [v] else map_of tbl a))"
proof (cases "map_of tbl k")
  case None
  then have k: "k \<notin> fst ` set tbl" by (simp add: map_of_eq_None_iff)
  have p: "push_frame k v tbl = Inr (add_property k [v] tbl)"
    using None assms(2) by (simp add: push_frame_def)
  have "fst ` set (add_property k [v] tbl) = insert k (fst ` set tbl)"
    by (simp add: add_property_set)
  moreover have "distinct (map fst (add_property k [v] tbl))"
    using assms(1) k by (rule add_property_distinct)
  moreover have "map_of (add_property k [v] tbl) a
      = (if a = k then extend_clip (map_of tbl k) [v] else map_of tbl a)" for a
    using None by (simp add: map_of_add_property [OF assms(1) k] extend_clip_def)
  ultimately show ?thesis using p by blast
next
  case (Some vs)
  let ?tbl = "map (\<lambda>(k', vs). if k' = k then (k', vs @ [v]) else (k', vs)) tbl"
  have p: "push_frame k v tbl = Inr ?tbl" using Some by (simp add: push_frame_def)
  have keys: "map fst ?tbl = map fst tbl" by (rule map_fst_map_append)
  have "(k, vs) \<in> set tbl" using Some by (rule map_of_SomeD)
  then have "k \<in> fst ` set tbl" by (rule image_eqI [rotated]) simp
  then have "insert k (fst ` set tbl) = fst ` set tbl" by blast
  moreover have "fst ` set ?tbl = fst ` set tbl"
    using keys by (metis set_map)
  ultimately have s: "fst ` set ?tbl = insert k (fst ` set tbl)" by simp
  have d: "distinct (map fst ?tbl)" using assms(1) by (simp only: keys)
  have "map_of ?tbl a = (if a = k then extend_clip (map_of tbl k) [v] else map_of tbl a)" for a
    using Some by (simp add: map_of_map_append extend_clip_def)
  with p d s show ?thesis by blast
qed

lemma push_frame_throws:
  "map_of tbl k = None \<Longrightarrow> object_prototype k \<noteq> None \<Longrightarrow> push_frame k v tbl = Inl TypeError"
  by (auto simp: push_frame_def)

lemma clip_entries_Nil: "clip_entries a [] = []"
  by (simp add: clip_entries_def map_filter_simps)

lemma clip_entries_Cons:
  "clip_entries a (sub # subs) =
     (case entry_of sub of None \<Rightarrow> [] | Some (a', e) \<Rightarrow> if a' = a then [e] else []) @ clip_entries a subs"
  by (simp add: clip_entries_def map_filter_simps split: option.splits)

lemma extend_clip_assoc: "extend_clip (extend_clip old [v]) es = extend_clip old (v # es)"
  by (simp add: extend_clip_def split: option.splits)

lemma extend_clip_Nil: "extend_clip old [] = old"
  by (simp add: extend_clip_def split: option.splits)

lemma collect_frames_returns:
  assumes "\<forall>sub\<in>set subs. \<not> throws_on sub" and "distinct (map fst tbl)"
  shows "\<exists>tbl'. collect_frames subs tbl = Inr tbl' \<and> distinct (map fst tbl') \<and>
           (\<forall>a. map_of tbl' a = extend_clip (map_of tbl a) (clip_entries a subs))"
  using assms
proof (induction subs arbitrary: tbl)
  case Nil
  then show ?case by (simp add: extend_clip_Nil clip_entries_Nil)
next
  case (Cons sub subs)
  from Cons.prems(1) have h: "\<not> throws_on sub" and rest: "\<forall>sub\<in>set subs. \<not> throws_on sub"
    by simp_all
  from h obtain name0 where n: "getAttribute sub ''name'' = Some name0"
    by (cases "getAttribute sub ''name''") (simp_all add: throws_on_def)
  show ?case
  proof (cases "match_name name0")
    case None
    then have e: "entry_of sub = None" by (simp add: entry_of_def n)
    from Cons.IH [OF rest Cons.prems(2)] show ?thesis
      by (simp add: n None clip_entries_Cons e)
  next
    case (Some m)
    obtain anim0 ds where m: "m = (anim0, ds)" by (cases m)
    have np: "object_prototype anim0 = None"
      using h by (simp add: throws_on_def n Some m)
    have e: "entry_of sub = Some (anim0, Number_of_digits ds, sub_frame sub)"
      by (simp add: entry_of_def n Some m)
    from push_frame_returns [OF Cons.prems(2) np, of "(Number_of_digits ds, sub_frame sub)"]
    obtain tbl1 where p: "push_frame anim0 (Number_of_digits ds, sub_frame sub) tbl = Inr tbl1"
      and d1: "distinct (map fst tbl1)"
      and l1: "\<forall>a. map_of tbl1 a = (if a = anim0
          then extend_clip (map_of tbl anim0) [(Number_of_digits ds, sub_frame sub)]
          else map_of tbl a)"
      by blast
    from Cons.IH [OF rest d1]
    obtain tbl' where t: "collect_frames subs tbl1 = Inr tbl'"
      and d: "distinct (map fst tbl')"
      and l: "\<forall>a. map_of tbl' a = extend_clip (map_of tbl1 a) (clip_entries a subs)"
      by blast
    have "map_of tbl' a = extend_clip (map_of tbl a) (clip_entries a (sub # subs))" for a
      using l l1 by (simp add: clip_entries_Cons e extend_clip_assoc)
    with t d show ?thesis by (simp add: n Some m p)
  qed
qed

lemma collect_frames_throws:
  assumes "\<exists>sub\<in>set subs. throws_on sub" and "distinct (map fst tbl)"
    and "\<forall>k\<in>fst ` set tbl. object_prototype k = None"
  shows "collect_frames subs tbl = Inl TypeError"
  using assms
proof (induction subs arbitrary: tbl)
  case Nil
  then show ?case by simp
next
  case (Cons sub subs)
  show ?case
  proof (cases "getAttribute sub ''name''")
    case None
    then show ?thesis by simp
  next
    case (Some name0)
    show ?thesis
    proof (cases "match_name name0")
      case None
      with Some have "\<not> throws_on sub" by (simp add: throws_on_def)
      with Cons.prems(1) have "\<exists>sub\<in>set subs. throws_on sub" by simp
      from Cons.IH [OF this Cons.prems(2,3)] show ?thesis by (simp add: Some None)
    next
      case m: (Some m)
      obtain anim0 ds where md: "m = (anim0, ds)" by (cases m)
      show ?thesis
      proof (cases "object_prototype anim0")
        case None
        with Some m md have "\<not> throws_on sub" by (simp add: throws_on_def)
        with Cons.prems(1) have rest: "\<exists>sub\<in>set subs. throws_on sub" by simp
        from push_frame_returns [OF Cons.prems(2) None, of "(Number_of_digits ds, sub_frame sub)"]
        obtain tbl1 where p: "push_frame anim0 (Number_of_digits ds, sub_frame sub) tbl = Inr tbl1"
          and d1: "distinct (map fst tbl1)"
          and k1: "fst ` set tbl1 = insert anim0 (fst ` set tbl)"
          by blast
        have "\<forall>k\<in>fst ` set tbl1. object_prototype k = None"
          using Cons.prems(3) None by (simp add: k1)
        from Cons.IH [OF rest d1 this] show ?thesis by (simp add: Some m md p)
      next
        case inherited: (Some l)
        have "map_of tbl anim0 = None"
        proof (rule ccontr)
          assume "map_of tbl anim0 \<noteq> None"
          then obtain vs where "map_of tbl anim0 = Some vs" by auto
          then have "(anim0, vs) \<in> set tbl" by (rule map_of_SomeD)
          then have "anim0 \<in> fst ` set tbl" by (rule image_eqI [rotated]) simp
          with Cons.prems(3) inherited show False by auto
        qed
        then have "push_frame anim0 (Number_of_digits ds, sub_frame sub) tbl = Inl TypeError"
          using inherited by (simp add: push_frame_throws)
        then show ?thesis by (simp add: Some m md)
      qed
    qed
  qed
qed

lemma map_of_map_values:
  "map_of (map (\<lambda>(k, v). (k, f v)) tbl) a = map_option f (map_of tbl a)"
  by (induction tbl) auto

lemma map_fst_map_values:
  "map fst (map (\<lambda>(k, v). (k, f v)) tbl) = map fst tbl"
  by (induction tbl) auto

lemma parseSparrow_no_throw:
  assumes "parseSparrow xml = Inr tbl"
  shows "\<forall>sub\<in>set (getElementsByTagName xml ''SubTexture''). \<not> throws_on sub"
proof (rule ccontr)
  assume "\<not> ?thesis"
  then have "\<exists>sub\<in>set (getElementsByTagName xml ''SubTexture''). throws_on sub"
    by simp
  from collect_frames_throws [OF this, of "[]"] assms show False
    by (simp add: parseSparrow_def)
qed

lemma parseSparrow_lookup:
  assumes "parseSparrow xml = Inr tbl"
  shows "map_of tbl a =
     (if clip_entries a (getElementsByTagName xml ''SubTexture'') = [] then None
      else Some (map snd (sort_key (\<lambda>f. index_key (fst f))
                  (clip_entries a (getElementsByTagName xml ''SubTexture'')))))"
proof -
  let ?subs = "getElementsByTagName xml ''SubTexture''"
  from collect_frames_returns [OF parseSparrow_no_throw [OF assms], of "[]"]
  obtain tbl' where t: "collect_frames ?subs [] = Inr tbl'"
    and l: "\<forall>a. map_of tbl' a = extend_clip None (clip_entries a ?subs)" by auto
  from assms t have "tbl = map (\<lambda>(anim0, fs). (anim0, map snd (sort_key (\<lambda>f. index_key (fst f)) fs))) tbl'"
    by (simp add: parseSparrow_def)
  then have "map_of tbl a = map_option (\<lambda>fs. map snd (sort_key (\<lambda>f. index_key (fst f)) fs)) (map_of tbl' a)"
    by (simp add: map_of_map_values)
  with l show ?thesis by (simp add: extend_clip_def)
qed

lemma parseSparrow_distinct:
  assumes "parseSparrow xml = Inr tbl"
  shows "distinct (map fst tbl)"
proof -
  from collect_frames_returns [OF parseSparrow_no_throw [OF assms], of "[]"]
  obtain tbl' where t: "collect_frames (getElementsByTagName xml ''SubTexture'') [] = Inr tbl'"
    and d: "distinct (map fst tbl')" by auto
  from assms t have e: "tbl = map (\<lambda>(anim0, fs). (anim0, map snd (sort_key (\<lambda>f. index_key (fst f)) fs))) tbl'"
    by (simp add: parseSparrow_def)
  show ?thesis unfolding e map_fst_map_values by (rule d)
qed

text \<open>
  The parser of late-registration/funkin.js: a clip of the table holds the frames of the
  SubTextures of its name, in the ascending order of the number their names end in, as
  \<open>Number\<close> reads it (entries of one number in document order), and it has at least one
  frame.
\<close>

lemma parseSparrow_sorted:
  assumes "parseSparrow xml = Inr tbl" and "(a, fs) \<in> set tbl"
  shows "fs \<noteq> [] \<and>
     fs = map snd (sort_key (\<lambda>f. index_key (fst f))
            (clip_entries a (getElementsByTagName xml ''SubTexture''))) \<and>
     sorted (map (\<lambda>f. index_key (fst f)) (sort_key (\<lambda>f. index_key (fst f))
            (clip_entries a (getElementsByTagName xml ''SubTexture''))))"
proof -
  let ?es = "clip_entries a (getElementsByTagName xml ''SubTexture'')"
  from parseSparrow_distinct [OF assms(1)] assms(2) have "map_of tbl a = Some fs" by simp
  with parseSparrow_lookup [OF assms(1), of a]
  have ne: "?es \<noteq> []" and fs: "fs = map snd (sort_key (\<lambda>f. index_key (fst f)) ?es)"
    by (auto split: if_splits)
  from ne have "length (sort_key (\<lambda>f. index_key (fst f)) ?es) \<noteq> 0"
    by simp
  then have "fs \<noteq> []" unfolding fs by (simp del: length_sort)
  with fs show ?thesis by simp
qed

text \<open>
  The clip names of this parser do not end in a digit, so none of them is an array index:
  the table it returns lists the clips in the order in which they were added.
\<close>

lemma strip_trailing_digits_last:
  "strip_trailing_digits s = [] \<or> \<not> is_digit (last (strip_trailing_digits s))"
proof (cases "dropWhile is_digit (rev s)")
  case Nil
  then show ?thesis by (simp add: strip_trailing_digits_def)
next
  case (Cons c cs)
  then have "\<not> is_digit c" by (metis hd_dropWhile list.sel(1) list.simps(3))
  with Cons show ?thesis by (simp add: strip_trailing_digits_def)
qed

lemma clip_entries_name:
  "clip_entries a subs \<noteq> [] \<Longrightarrow> \<exists>name0. a = strip_trailing_digits name0"
proof (induction subs)
  case Nil
  then show ?case by (simp add: clip_entries_Nil)
next
  case (Cons sub subs)
  then show ?case
    by (auto simp: clip_entries_Cons entry_of_def match_name_def split: option.splits if_splits)
qed

lemma parseSparrow_clip_names:
  assumes "parseSparrow xml = Inr tbl" and "(a, fs) \<in> set tbl"
  shows "a = [] \<or> \<not> is_digit (last a)"
proof -
  from parseSparrow_distinct [OF assms(1)] assms(2) have "map_of tbl a = Some fs" by simp
  with parseSparrow_lookup [OF assms(1), of a]
  have "clip_entries a (getElementsByTagName xml ''SubTexture'') \<noteq> []"
    by (auto split: if_splits)
  from clip_entries_name [OF this] strip_trailing_digits_last show ?thesis by auto
qed

lemma parseSparrow_demo_atlas:
  "parseSparrow demo_atlas =
     Inr [(''idle'', [sub_frame (sub_texture ''idle0'' ''0''), sub_frame (sub_texture ''idle2'' ''20''),
                      sub_frame (sub_texture ''idle10'' ''100'')])]"
  by code_simp

text \<open>
  C2. The parser of part_000 groups the frames by clip name and never sorts them: for a
  descriptor that lists idle0, idle10, idle2, the order an atlas packer writes when it
  sorts the names as strings, the clip plays idle0, idle10, idle2. The parser of
  late-registration/funkin.js returns idle0, idle2, idle10 for the same descriptor.
\<close>

theorem parseSparrow_p000_document_order:
  "parseSparrow_p000 demo_atlas =
     Inr [(''idle'', [sub_frame (sub_texture ''idle0'' ''0''), sub_frame (sub_texture ''idle10'' ''100''),
                      sub_frame (sub_texture ''idle2'' ''20'')])] \<and>
   map frame_x [sub_frame (sub_texture ''idle0'' ''0''), sub_frame (sub_texture ''idle10'' ''100''),
                sub_frame (sub_texture ''idle2'' ''20'')] = [Num 0, Num 100, Num 20]"
  by code_simp

text \<open>
  The offsets stored by late-registration/funkin.js: the negated \<open>frameX\<close> and
  \<open>frameY\<close>, 0 for an attribute that is missing, and every frame of the table is the
  frame of a SubTexture of the descriptor.
\<close>

lemma sub_frame_offsets:
  "(getAttribute sub ''frameX'' = None \<longrightarrow> frame_ox (sub_frame sub) = Num 0) \<and>
   (getAttribute sub ''frameY'' = None \<longrightarrow> frame_oy (sub_frame sub) = Num 0) \<and>
   (to_number (getAttribute sub ''frameX'') = Num qx \<longrightarrow> frame_ox (sub_frame sub) = Num (- qx)) \<and>
   (to_number (getAttribute sub ''frameY'') = Num qy \<longrightarrow> frame_oy (sub_frame sub) = Num (- qy))"
  by (simp add: sub_frame_def to_number_def or_zero_def)

lemma clip_entries_frames:
  "e \<in> set (clip_entries a subs) \<Longrightarrow> \<exists>sub\<in>set subs. snd e = sub_frame sub"
proof (induction subs)
  case Nil
  then show ?case by (simp add: clip_entries_Nil)
next
  case (Cons sub subs)
  then show ?case
    by (auto simp: clip_entries_Cons entry_of_def split: option.splits if_splits)
qed

lemma parseSparrow_frames:
  assumes "parseSparrow xml = Inr tbl" and "(a, fs) \<in> set tbl" and "f \<in> set fs"
  shows "\<exists>sub\<in>set (getElementsByTagName xml ''SubTexture''). f = sub_frame sub"
proof -
  from parseSparrow_sorted [OF assms(1,2)] assms(3)
  have "f \<in> snd ` set (clip_entries a (getElementsByTagName xml ''SubTexture''))" by simp
  then obtain e where "e \<in> set (clip_entries a (getElementsByTagName xml ''SubTexture''))" and "f = snd e"
    by auto
  with clip_entries_frames [of e a] show ?thesis by auto
qed

text \<open>
  C5. The parser of part_001 stores the offsets 0 and 0 whatever the descriptor says
  ("ignore offsets for now"): for SubTextures with \<open>frameX = -5\<close> and \<open>frameY = -7\<close> its
  frames have the offset (0, 0), where the claim and the parsers of the other four
  programs store (5, 7).
\<close>

theorem parseSparrow_p001_drops_offsets:
  "getAttribute (sub_texture ''idle0'' ''0'') ''frameX'' = Some ''-5'' \<and>
   getAttribute (sub_texture ''idle0'' ''0'') ''frameY'' = Some ''-7'' \<and>
   map (\<lambda>(a, fs). (a, map (\<lambda>f. (frame_ox f, frame_oy f)) fs)) (projr (parseSparrow_p001 demo_atlas))
     = [(''idle'', [(Num 0, Num 0), (Num 0, Num 0), (Num 0, Num 0)])] \<and>
   map (\<lambda>(a, fs). (a, map (\<lambda>f. (frame_ox f, frame_oy f)) fs)) (projr (parseSparrow demo_atlas))
     = [(''idle'', [(Num 5, Num 7), (Num 5, Num 7), (Num 5, Num 7)])]"
  by code_simp

text \<open>
  C8, as the code has it. The parser has no ParseError. It throws, a TypeError, exactly
  when the document has a SubTexture without a \<open>name\<close> attribute or a SubTexture whose
  name ends in digits after the name of a member of \<open>Object.prototype\<close>, such as
  "constructor0"; then it returns no table. For every other document it returns a table.
\<close>

theorem parseSparrow_raises_iff:
  "(if \<exists>sub\<in>set (getElementsByTagName xml ''SubTexture''). throws_on sub
    then parseSparrow xml = Inl TypeError
    else \<exists>tbl. parseSparrow xml = Inr tbl)"
proof (cases "\<exists>sub\<in>set (getElementsByTagName xml ''SubTexture''). throws_on sub")
  case True
  from collect_frames_throws [OF True, of "[]"] True show ?thesis
    by (simp add: parseSparrow_def)
next
  case False
  then have "\<forall>sub\<in>set (getElementsByTagName xml ''SubTexture''). \<not> throws_on sub"
    by simp
  from collect_frames_returns [OF this, of "[]"] False show ?thesis
    by (auto simp: parseSparrow_def)
qed

theorem parseSparrow_raises_iff_witness:
  "parseSparrow nameless_atlas = Inl TypeError \<and>
   parseSparrow prototype_atlas = Inl TypeError \<and>
   (\<exists>tbl. parseSparrow demo_atlas = Inr tbl)"
proof -
  have 1: "\<exists>sub\<in>set (getElementsByTagName nameless_atlas ''SubTexture''). throws_on sub"
    by code_simp
  have 2: "\<exists>sub\<in>set (getElementsByTagName prototype_atlas ''SubTexture''). throws_on sub"
    by code_simp
  have 3: "\<not> (\<exists>sub\<in>set (getElementsByTagName demo_atlas ''SubTexture''). throws_on sub)"
    by code_simp
  show ?thesis
    using parseSparrow_raises_iff [of nameless_atlas] parseSparrow_raises_iff [of prototype_atlas]
      parseSparrow_raises_iff [of demo_atlas] 1 2 3
    by (simp only: if_True if_False simp_thms)
qed

text \<open>
  The claim C8 as stated fails on a SubTexture without \<open>x\<close>, \<open>y\<close> and \<open>height\<close> and
  with the width "abc": the parser returns a table, with 0 for the missing attributes and
  NaN for the width. A document without any SubTexture, as the host's XML parser returns
  for markup that is not well-formed, gives the empty table.
\<close>

theorem parseSparrow_no_ParseError_counterexample:
  "parseSparrow sloppy_atlas =
     Inr [(''idle'', [\<lparr>frame_x = Num 0, frame_y = Num 0, frame_w = NaN, frame_h = Num 0,
                       frame_ox = Num 0, frame_oy = Num 0\<rparr>])] \<and>
   parseSparrow [(''parsererror'', [])] = Inr []"
  by code_simp

section \<open>The frame loop\<close>

lemma for_sorted_no_error:
  assumes "distinct ixs" and "\<forall>i\<in>set ixs. i < length objs"
    and "\<forall>i\<in>set ixs. snd (run_effect sine (objs ! i) dt) = None"
  shows "for_sorted sine v dt ixs objs out =
     (map (\<lambda>k. if k \<in> set ixs then tick_object sine dt (objs ! k) else objs ! k) [0..<length objs],
      out @ concat (map (\<lambda>i. draw_object v (tick_object sine dt (objs ! i))) ixs),
      None)"
  using assms
proof (induction ixs arbitrary: objs out)
  case Nil
  then show ?case by (simp add: map_nth)
next
  case (Cons i rest)
  obtain obj1 where r: "run_effect sine (objs ! i) dt = (obj1, None)"
    using Cons.prems(3) by (cases "run_effect sine (objs ! i) dt") auto
  let ?obj2 = "update_object dt obj1"
  let ?objs = "objs[i := ?obj2]"
  have t: "tick_object sine dt (objs ! i) = ?obj2" by (simp add: tick_object_def r)
  have i: "i < length objs" "i \<notin> set rest" "distinct rest" using Cons.prems by auto
  have same: "?objs ! j = objs ! j" if "j \<in> set rest" for j
  proof -
    from that i(2) have "i \<noteq> j" by auto
    then show ?thesis by simp
  qed
  have p2: "\<forall>j\<in>set rest. j < length ?objs" using Cons.prems(2) by simp
  have p3: "\<forall>j\<in>set rest. snd (run_effect sine (?objs ! j) dt) = None"
    using Cons.prems(3) same by simp
  have ih: "for_sorted sine v dt rest ?objs (out @ draw_object v ?obj2) =
     (map (\<lambda>k. if k \<in> set rest then tick_object sine dt (?objs ! k) else ?objs ! k) [0..<length ?objs],
      (out @ draw_object v ?obj2) @ concat (map (\<lambda>i. draw_object v (tick_object sine dt (?objs ! i))) rest),
      None)"
    by (rule Cons.IH [OF i(3) p2 p3])
  have m1: "map (\<lambda>k. if k \<in> set rest then tick_object sine dt (?objs ! k) else ?objs ! k) [0..<length ?objs]
      = map (\<lambda>k. if k \<in> set (i # rest) then tick_object sine dt (objs ! k) else objs ! k) [0..<length objs]"
  proof (rule map_cong)
    show "[0..<length ?objs] = [0..<length objs]" by simp
  next
    fix k assume "k \<in> set [0..<length objs]"
    show "(if k \<in> set rest then tick_object sine dt (?objs ! k) else ?objs ! k) =
          (if k \<in> set (i # rest) then tick_object sine dt (objs ! k) else objs ! k)"
    proof (cases "k = i")
      case True
      with i t show ?thesis by simp
    next
      case False
      then have "?objs ! k = objs ! k" by simp
      with False show ?thesis by simp
    qed
  qed
  have m2: "map (\<lambda>i. draw_object v (tick_object sine dt (?objs ! i))) rest
      = map (\<lambda>i. draw_object v (tick_object sine dt (objs ! i))) rest"
    using same by simp
  show ?case
    by (simp only: for_sorted.simps r prod.case option.case Let_def ih m1 m2 t list.map
        concat.simps append_assoc)
qed

lemma sorted_order_set: "set (sorted_order objs) = {0..<length objs}"
  by (simp add: sorted_order_def)

lemma sorted_order_distinct: "distinct (sorted_order objs)"
  by (simp add: sorted_order_def)

lemma sorted_order_sorted: "sorted (map (\<lambda>i. layer_key (objs ! i)) (sorted_order objs))"
  by (simp add: sorted_order_def)

lemma sorted_order_stable:
  "filter (\<lambda>i. layer_key (objs ! i) = k) (sorted_order objs)
     = filter (\<lambda>i. layer_key (objs ! i) = k) [0..<length objs]"
  by (simp add: sorted_order_def sort_key_stable)

lemma for_sorted_sorted_order:
  assumes "\<forall>i<length objs. snd (run_effect sine (objs ! i) dt) = None"
  shows "for_sorted sine v dt (sorted_order objs) objs out =
     (map (tick_object sine dt) objs,
      out @ concat (map (\<lambda>i. draw_object v (tick_object sine dt (objs ! i))) (sorted_order objs)),
      None)"
proof -
  have a: "\<forall>i\<in>set (sorted_order objs). i < length objs" by (simp add: sorted_order_set)
  have b: "\<forall>i\<in>set (sorted_order objs). snd (run_effect sine (objs ! i) dt) = None"
    using assms by (simp add: sorted_order_set)
  have "map (\<lambda>k. if k \<in> set (sorted_order objs) then tick_object sine dt (objs ! k) else objs ! k)
          [0..<length objs] = map (\<lambda>k. tick_object sine dt (objs ! k)) [0..<length objs]"
    by (simp add: sorted_order_set)
  also have "\<dots> = map (tick_object sine dt) (map (\<lambda>k. objs ! k) [0..<length objs])"
    by (simp only: map_map o_def)
  also have "\<dots> = map (tick_object sine dt) objs"
    by (simp only: map_nth)
  finally have m: "map (\<lambda>k. if k \<in> set (sorted_order objs) then tick_object sine dt (objs ! k) else objs ! k)
          [0..<length objs] = map (tick_object sine dt) objs" .
  show ?thesis
    by (simp only: for_sorted_no_error [OF sorted_order_distinct a b] m)
qed

lemma find_index_less: "find_index p xs = Some i \<Longrightarrow> i < length xs"
  by (induction xs arbitrary: i) (auto split: if_splits)

lemma map_update_same:
  assumes "i < length xs" and "f y = f (xs ! i)"
  shows "map f (xs[i := y]) = map f xs"
proof -
  have "map f (xs[i := y]) = (map f xs)[i := f (xs ! i)]"
    using assms(2) by (simp add: map_update)
  also have "\<dots> = map f xs"
    using assms(1) by (metis list_update_id nth_map)
  finally show ?thesis .
qed

lemma set_anim_of_layers: "map layer_key (set_anim_of who a objs) = map layer_key objs"
proof (cases "find_index (\<lambda>obj. obj_name obj = who) objs")
  case None
  then show ?thesis by (simp add: set_anim_of_def)
next
  case (Some i)
  then have i: "i < length objs" by (rule find_index_less)
  show ?thesis
  proof (cases "obj_sprite (objs ! i)")
    case None
    with Some show ?thesis by (simp add: set_anim_of_def)
  next
    case (Some s)
    have "layer_key ((objs ! i)\<lparr>obj_sprite := Some (setAnim a s)\<rparr>) = layer_key (objs ! i)"
      by (simp add: layer_key_def)
    from map_update_same [OF i this] Some \<open>find_index _ objs = Some i\<close>
    show ?thesis by (simp add: set_anim_of_def)
  qed
qed

lemma updateControls_layers: "map layer_key (updateControls ks objs) = map layer_key objs"
  by (simp add: updateControls_def set_anim_of_layers)

text \<open>
  C9. In one call of \<open>loop\<close>, as long as no effect throws, the calls on the context are
  the clearing of the canvas and then the draws of the objects in the order of
  \<open>sorted_order\<close>, each object drawn after its own effect and update. That order holds
  every position of \<open>gameObjects\<close> once, ascends in the layer (the controls leave the
  layers as they were inserted), and lists the objects of one layer in the order of their
  positions, which is the order of insertion.
\<close>

theorem loop_draws_by_layer:
  assumes "objs = updateControls (keys w) (gameObjects w)"
    and "dt = js_div (js_sub time (lastTime w)) (Num 1000)"
    and "\<forall>i<length objs. snd (run_effect sine (objs ! i) dt) = None"
  shows "fst (snd (loop sine time w)) =
       ClearRect (Num 0) (Num 0) (canvas_width w) (canvas_height w) #
       concat (map (\<lambda>i. draw_object (view w) (tick_object sine dt (objs ! i))) (sorted_order objs)) \<and>
     gameObjects (fst (loop sine time w)) = map (tick_object sine dt) objs \<and>
     map layer_key objs = map layer_key (gameObjects w) \<and>
     sorted (map (\<lambda>i. layer_key (objs ! i)) (sorted_order objs)) \<and>
     distinct (sorted_order objs) \<and> set (sorted_order objs) = {0..<length objs} \<and>
     (\<forall>k. filter (\<lambda>i. layer_key (objs ! i) = k) (sorted_order objs)
           = filter (\<lambda>i. layer_key (objs ! i) = k) [0..<length objs])"
proof -
  note fs = for_sorted_sorted_order [OF assms(3), of "view w"
      "[ClearRect (Num 0) (Num 0) (canvas_width w) (canvas_height w)]"]
  have 1: "fst (snd (loop sine time w)) =
       ClearRect (Num 0) (Num 0) (canvas_width w) (canvas_height w) #
       concat (map (\<lambda>i. draw_object (view w) (tick_object sine dt (objs ! i))) (sorted_order objs))"
    using fs by (simp add: loop_def Let_def assms(1,2) [symmetric])
  have 2: "gameObjects (fst (loop sine time w)) = map (tick_object sine dt) objs"
    using fs by (simp add: loop_def Let_def assms(1,2) [symmetric])
  have 3: "map layer_key objs = map layer_key (gameObjects w)"
    by (simp add: assms(1) updateControls_layers)
  from 1 2 3 show ?thesis
    by (simp only: sorted_order_sorted sorted_order_distinct sorted_order_set sorted_order_stable
        simp_thms)
qed

text \<open>
  The objects of the layers 2, 0, 1, inserted in that order as "front", "back" and
  "middle", are drawn as "back", "middle", "front"; the objects a, b, c, d of the layers
  1, 0, 1, 0 are taken as b, d, a, c.
\<close>

theorem loop_draws_by_layer_witness:
  "fst (snd (loop (\<lambda>t. Num 0) (Num 100) demo_world)) =
     [ClearRect (Num 0) (Num 0) (Num 1280) (Num 720),
      Save, GlobalAlpha (Num 1),
      DrawImage ''back'' (Num 2) (Num 0) (Num 10) (Num 20) (Num 2) (Num 0) (Num 10) (Num 20),
      Restore,
      Save, GlobalAlpha (Num 1),
      DrawImage ''middle'' (Num 3) (Num 0) (Num 10) (Num 20) (Num 3) (Num 0) (Num 10) (Num 20),
      Restore,
      Save, GlobalAlpha (Num 1),
      DrawImage ''front'' (Num 1) (Num 0) (Num 10) (Num 20) (Num 1) (Num 0) (Num 10) (Num 20),
      Restore] \<and>
   sorted_order (updateControls (keys demo_world) (gameObjects demo_world)) = [1, 2, 0] \<and>
   map obj_name (map (\<lambda>i. tied_objects ! i) (sorted_order tied_objects)) = [''b'', ''d'', ''a'', ''c'']"
proof -
  let ?objs = "updateControls (keys demo_world) (gameObjects demo_world)"
  let ?dt = "js_div (js_sub (Num 100) (lastTime demo_world)) (Num 1000)"
  have e: "\<forall>obj\<in>set ?objs. snd (run_effect (\<lambda>t. Num 0) obj ?dt) = None"
    by code_simp
  have h: "\<forall>i<length ?objs. snd (run_effect (\<lambda>t. Num 0) (?objs ! i) ?dt) = None"
    using e by (simp only: all_set_conv_all_nth)
  have o: "sorted_order ?objs = [1, 2, 0]" by code_simp
  have c: "ClearRect (Num 0) (Num 0) (canvas_width demo_world) (canvas_height demo_world) #
       concat (map (\<lambda>i. draw_object (view demo_world) (tick_object (\<lambda>t. Num 0) ?dt (?objs ! i))) [1, 2, 0])
     = [ClearRect (Num 0) (Num 0) (Num 1280) (Num 720),
      Save, GlobalAlpha (Num 1),
      DrawImage ''back'' (Num 2) (Num 0) (Num 10) (Num 20) (Num 2) (Num 0) (Num 10) (Num 20),
      Restore,
      Save, GlobalAlpha (Num 1),
      DrawImage ''middle'' (Num 3) (Num 0) (Num 10) (Num 20) (Num 3) (Num 0) (Num 10) (Num 20),
      Restore,
      Save, GlobalAlpha (Num 1),
      DrawImage ''front'' (Num 1) (Num 0) (Num 10) (Num 20) (Num 1) (Num 0) (Num 10) (Num 20),
      Restore]"
    by code_simp
  from loop_draws_by_layer [OF refl refl h]
  have "fst (snd (loop (\<lambda>t. Num 0) (Num 100) demo_world)) =
       ClearRect (Num 0) (Num 0) (canvas_width demo_world) (canvas_height demo_world) #
       concat (map (\<lambda>i. draw_object (view demo_world) (tick_object (\<lambda>t. Num 0) ?dt (?objs ! i)))
         (sorted_order ?objs))"
    by (rule conjunct1)
  moreover have "map obj_name (map (\<lambda>i. tied_objects ! i) (sorted_order tied_objects))
      = [''b'', ''d'', ''a'', ''c'']"
    by code_simp
  ultimately show ?thesis by (simp only: o c simp_thms)
qed

end
